theory Spec2Isabelle
  imports Main "HOL-Library.AList"
begin

section \<open>Python values\<close>

subsection \<open>Strings\<close>

text \<open>
  A Python \<open>str\<close> is a sequence of Unicode code points, so it is modelled as a list of
  natural numbers. \<open>ascii\<close> turns a literal of the theory into such a string (each
  character stands for the code point of the same number).
\<close>

type_synonym ustr = "nat list"

definition ascii :: "string \<Rightarrow> ustr" where
  "ascii s = map of_char s"

text \<open>The code points named in the source.\<close>

definition U_00E2 :: nat where "U_00E2 = 226"      \<comment> \<open>a with circumflex\<close>
definition U_2013 :: nat where "U_2013 = 8211"     \<comment> \<open>en dash\<close>
definition U_2014 :: nat where "U_2014 = 8212"     \<comment> \<open>em dash\<close>
definition U_25CF :: nat where "U_25CF = 9679"     \<comment> \<open>black circle, the bullet glyph\<close>
definition SPACE :: nat where "SPACE = 32"
definition HYPHEN :: nat where "HYPHEN = 45"
definition APOSTROPHE :: nat where "APOSTROPHE = 39"

text \<open>
  \<open>str.replace(old, new)\<close>: the occurrences of \<open>old\<close> are replaced from left to right
  and do not overlap; an empty \<open>old\<close> matches before every character and at the end.
\<close>

fun py_replace :: "'a list \<Rightarrow> 'a list \<Rightarrow> 'a list \<Rightarrow> 'a list" where
  "py_replace [] new s = new @ concat (map (\<lambda>c. c # new) s)"
| "py_replace (a # old) new [] = []"
| "py_replace (a # old) new (x # xs) =
     (if take (Suc (length old)) (x # xs) = a # old
      then new @ py_replace (a # old) new (drop (length old) xs)
      else x # py_replace (a # old) new xs)"

text \<open>\<open>str.isspace\<close> of one code point: the characters \<open>str.strip()\<close> removes.\<close>

definition py_isspace :: "nat \<Rightarrow> bool" where
  "py_isspace c \<longleftrightarrow>
     (9 \<le> c \<and> c \<le> 13) \<or> (28 \<le> c \<and> c \<le> 32) \<or> c = 133 \<or> c = 160 \<or> c = 5760 \<or>
     (8192 \<le> c \<and> c \<le> 8202) \<or> c = 8232 \<or> c = 8233 \<or> c = 8239 \<or> c = 8287 \<or> c = 12288"

definition py_strip :: "ustr \<Rightarrow> ustr" where
  "py_strip s = rev (dropWhile py_isspace (rev (dropWhile py_isspace s)))"

definition py_startswith :: "ustr \<Rightarrow> ustr \<Rightarrow> bool" where
  "py_startswith s p \<longleftrightarrow> take (length p) s = p"

text \<open>\<open>sep.join(xs)\<close> on strings.\<close>

fun py_join :: "ustr \<Rightarrow> ustr list \<Rightarrow> ustr" where
  "py_join sep [] = []"
| "py_join sep [x] = x"
| "py_join sep (x # y # ys) = x @ sep @ py_join sep (y # ys)"

text \<open>\<open>k in t\<close> on two strings: \<open>k\<close> occurs in \<open>t\<close> as a substring.\<close>

fun py_substr :: "ustr \<Rightarrow> ustr \<Rightarrow> bool" where
  "py_substr k [] \<longleftrightarrow> k = []"
| "py_substr k (x # xs) \<longleftrightarrow> take (length k) (x # xs) = k \<or> py_substr k xs"

subsection \<open>Decoded JSON\<close>

text \<open>
  The values \<open>json.loads\<close> and \<open>request.json\<close> produce. A \<open>dict\<close> keeps its keys in
  insertion order, so it is an association list; the keys of a Python \<open>dict\<close> are
  distinct, and \<open>map_of\<close> is the lookup. The renderer only tests the type of a number,
  so \<open>int\<close> and \<open>float\<close> share one constructor.
\<close>

datatype json =
    JNull
  | JBool bool
  | JNum int
  | JStr ustr
  | JList "json list"
  | JDict "(ustr \<times> json) list"

fun is_dict :: "json \<Rightarrow> bool" where
  "is_dict (JDict kvs) = True"
| "is_dict v = False"

subsection \<open>Exceptions\<close>

text \<open>
  \<open>ValueError\<close> carries its message and \<open>KeyError\<close> the missing key, as the Python
  exceptions do. A raise is the left injection of the result.
\<close>

datatype error = ValueError ustr | KeyError ustr | TypeError | AttributeError

definition bindE :: "error + 'a \<Rightarrow> ('a \<Rightarrow> error + 'b) \<Rightarrow> error + 'b" where
  "bindE m f = (case m of Inl e \<Rightarrow> Inl e | Inr x \<Rightarrow> f x)"

text \<open>\<open>obj[key]\<close> with a string key: only a \<open>dict\<close> can be subscripted by a string.\<close>

fun py_getitem :: "json \<Rightarrow> ustr \<Rightarrow> error + json" where
  "py_getitem (JDict kvs) key =
     (case map_of kvs key of None \<Rightarrow> Inl (KeyError key) | Some v \<Rightarrow> Inr v)"
| "py_getitem v key = Inl TypeError"

text \<open>
  \<open>key in obj\<close> with a string key: a key of a \<open>dict\<close>, an element of a \<open>list\<close>, a
  substring of a \<open>str\<close>; any other value is not a container.
\<close>

fun py_contains :: "json \<Rightarrow> ustr \<Rightarrow> error + bool" where
  "py_contains (JDict kvs) key = Inr (key \<in> set (map fst kvs))"
| "py_contains (JList xs) key = Inr (JStr key \<in> set xs)"
| "py_contains (JStr t) key = Inr (py_substr key t)"
| "py_contains v key = Inl TypeError"

text \<open>
  \<open>for x in obj\<close>: the elements of a \<open>list\<close>, the characters of a \<open>str\<close>, the keys
  of a \<open>dict\<close>; any other value is not iterable.
\<close>

fun py_iter :: "json \<Rightarrow> error + json list" where
  "py_iter (JList xs) = Inr xs"
| "py_iter (JStr s) = Inr (map (\<lambda>c. JStr [c]) s)"
| "py_iter (JDict kvs) = Inr (map (\<lambda>kv. JStr (fst kv)) kvs)"
| "py_iter v = Inl TypeError"

text \<open>
  \<open>category in d\<close> followed by \<open>d[category]\<close> for a \<open>dict\<close> \<open>d\<close> with string keys and
  any decoded value \<open>category\<close>: a \<open>list\<close> or \<open>dict\<close> is unhashable, and no other
  value that is not a string equals a key.
\<close>

fun py_dict_find :: "(ustr \<times> json) list \<Rightarrow> json \<Rightarrow> error + (ustr \<times> json) option" where
  "py_dict_find d (JStr k) =
     Inr (case map_of d k of None \<Rightarrow> None | Some v \<Rightarrow> Some (k, v))"
| "py_dict_find d (JList xs) = Inl TypeError"
| "py_dict_find d (JDict kvs) = Inl TypeError"
| "py_dict_find d v = Inr None"

text \<open>A method of \<open>str\<close> (\<open>strip\<close>, \<open>replace\<close>) called on a decoded value.\<close>

fun py_str_receiver :: "json \<Rightarrow> error + ustr" where
  "py_str_receiver (JStr s) = Inr s"
| "py_str_receiver v = Inl AttributeError"

text \<open>\<open>", ".join(skills)\<close> on a list: every element has to be a string.\<close>

fun py_str_items :: "json list \<Rightarrow> error + ustr list" where
  "py_str_items [] = Inr []"
| "py_str_items (JStr s # vs) = bindE (py_str_items vs) (\<lambda>ss. Inr (s # ss))"
| "py_str_items (v # vs) = Inl TypeError"

text \<open>
  \<open>d.get(key, default)\<close>: only a \<open>dict\<close> has the method.
\<close>

fun py_get :: "json \<Rightarrow> ustr \<Rightarrow> json \<Rightarrow> error + json" where
  "py_get (JDict kvs) key dflt =
     Inr (case map_of kvs key of None \<Rightarrow> dflt | Some v \<Rightarrow> v)"
| "py_get v key dflt = Inl AttributeError"

text \<open>\<open>list(d.keys())\<close>.\<close>

definition py_keys :: "(ustr \<times> json) list \<Rightarrow> json" where
  "py_keys d = JList (map (\<lambda>kv. JStr (fst kv)) d)"

section \<open>The document model\<close>

text \<open>
  The document the renderer builds through python-docx: the paragraphs and tables of the
  body in order, with the runs, hyperlinks and formatting attributes the renderer sets.
  An attribute the renderer leaves alone is \<open>None\<close> (or \<open>False\<close> for the three run
  toggles). Lengths are in English Metric Units, as python-docx stores them.
\<close>

definition Pt :: "nat \<Rightarrow> nat" where
  "Pt n = n * 12700"

definition Inches10 :: "nat \<Rightarrow> nat" where
  \<comment> \<open>\<open>Inches(n / 10)\<close>\<close>
  "Inches10 n = n * 91440"

datatype align = LEFT | CENTER | RIGHT

record run =
  r_text :: ustr
  r_bold :: bool
  r_italic :: bool
  r_underline :: bool

record hyperlink =
  h_url :: ustr
  h_b :: bool
  h_color :: string
  h_u :: string
  h_text :: ustr

datatype inline = Run run | Hyperlink hyperlink

record para =
  p_alignment :: "align option"
  p_space_after :: "nat option"
  p_space_before :: "nat option"
  p_style :: "string option"
  p_content :: "inline list"

record cell =
  c_width :: "nat option"
  c_para :: para

type_synonym tbl_borders = "(string \<times> string \<times> string \<times> string \<times> string) list"

record table =
  t_alignment :: "align option"
  t_autofit :: "bool option"
  t_borders :: "tbl_borders list"
  t_col_widths :: "nat option list"
  t_rows :: "cell list list"

datatype block = Para para | Table table

record document =
  d_font_name :: "string option"
  d_font_size :: "nat option"
  d_margins :: "(nat \<times> nat \<times> nat \<times> nat) option"
  d_body :: "block list"

subsection \<open>The primitives of python-docx\<close>

text \<open>
  python-docx is not part of the repository. Its primitives are modelled as recording
  their arguments in the document model, with the two ways in which they raise:
  \<^item> Their text parameters are declared \<open>str\<close>. What a primitive does with an argument
    of another type is the parameter \<open>nonstr_text\<close>: the text that ends up in the
    document, or \<open>None\<close> when the primitive raises \<open>TypeError\<close>.
  \<^item> A text is written into the XML tree, and the tree refuses a text that is not XML
    compatible (one with a NUL or a control character) with a \<open>ValueError\<close>. Which
    texts a primitive refuses is the parameter \<open>rejects\<close>: the message of the
    \<open>ValueError\<close>, or \<open>None\<close> when the text is written. An empty text holds no
    character to refuse (and \<open>add_run\<close> does not write it at all), so it never raises.
  \<open>json.loads\<close> is the third parameter: it returns the decoded value, or the message
  of its \<open>JSONDecodeError\<close>. The literals of the source that the renderer passes to a
  primitive (\<open>'Category'\<close>, \<open>' || '\<close>, the headings) are printable ASCII and are
  written as they are.
\<close>

datatype prim = AddRun | AddParagraph | CellText | HyperlinkText

record lib =
  json_loads :: "ustr \<Rightarrow> ustr + json"
  nonstr_text :: "prim \<Rightarrow> json \<Rightarrow> ustr option"
  rejects :: "prim \<Rightarrow> ustr \<Rightarrow> ustr option"

text \<open>A string passed as the text of a primitive.\<close>

definition str_arg :: "lib \<Rightarrow> prim \<Rightarrow> ustr \<Rightarrow> error + ustr" where
  "str_arg L p s =
     (if s = [] then Inr s
      else (case rejects L p s of None \<Rightarrow> Inr s | Some msg \<Rightarrow> Inl (ValueError msg)))"

text \<open>A decoded value passed as the text of a primitive.\<close>

definition text_arg :: "lib \<Rightarrow> prim \<Rightarrow> json \<Rightarrow> error + ustr" where
  "text_arg L p v =
     (case v of
        JStr s \<Rightarrow> str_arg L p s
      | _ \<Rightarrow> (case nonstr_text L p v of None \<Rightarrow> Inl TypeError | Some s \<Rightarrow> str_arg L p s))"

definition Document :: document where
  "Document = \<lparr>d_font_name = None, d_font_size = None, d_margins = None, d_body = []\<rparr>"

definition new_paragraph :: para where
  "new_paragraph = \<lparr>p_alignment = None, p_space_after = None, p_space_before = None,
     p_style = None, p_content = []\<rparr>"

definition new_run :: "ustr \<Rightarrow> run" where
  "new_run s = \<lparr>r_text = s, r_bold = False, r_italic = False, r_underline = False\<rparr>"

definition new_cell :: cell where
  "new_cell = \<lparr>c_width = None, c_para = new_paragraph\<rparr>"

text \<open>\<open>paragraph.add_run(text)\<close>: the new run, to be formatted by the caller.\<close>

definition add_run :: "para \<Rightarrow> run \<Rightarrow> para" where
  "add_run p r = p\<lparr>p_content := p_content p @ [Run r]\<rparr>"

text \<open>\<open>paragraph.runs\<close>: the runs that are children of the paragraph itself.\<close>

fun runs :: "inline list \<Rightarrow> run list" where
  "runs [] = []"
| "runs (Run r # xs) = r # runs xs"
| "runs (Hyperlink h # xs) = runs xs"

text \<open>
  The paragraph \<open>doc.add_paragraph(text, style)\<close> creates once the text is written: it
  has a run only for a text that is not empty.
\<close>

definition paragraph_of :: "ustr \<Rightarrow> string option \<Rightarrow> para" where
  "paragraph_of text style =
     new_paragraph\<lparr>p_style := style,
       p_content := (if text = [] then [] else [Run (new_run text)])\<rparr>"

text \<open>\<open>doc.add_paragraph(text, style)\<close> with a string: it raises when the text is refused.\<close>

definition doc_add_paragraph :: "lib \<Rightarrow> ustr \<Rightarrow> string option \<Rightarrow> error + para" where
  "doc_add_paragraph L text style =
     bindE (str_arg L AddParagraph text) (\<lambda>text. Inr (paragraph_of text style))"

definition add_block :: "document \<Rightarrow> block \<Rightarrow> document" where
  "add_block doc b = doc\<lparr>d_body := d_body doc @ [b]\<rparr>"

text \<open>\<open>doc.add_table(rows, cols)\<close>, as a value; it joins the body where it is created.\<close>

definition add_table :: "nat \<Rightarrow> nat \<Rightarrow> table" where
  "add_table rows cols =
     \<lparr>t_alignment = None, t_autofit = None, t_borders = [],
      t_col_widths = replicate cols None,
      t_rows = replicate rows (replicate cols new_cell)\<rparr>"

definition table_cell :: "table \<Rightarrow> nat \<Rightarrow> nat \<Rightarrow> cell" where
  "table_cell t i j = t_rows t ! i ! j"

definition set_table_cell :: "table \<Rightarrow> nat \<Rightarrow> nat \<Rightarrow> cell \<Rightarrow> table" where
  "set_table_cell t i j c = t\<lparr>t_rows := (t_rows t)[i := (t_rows t ! i)[j := c]]\<rparr>"

text \<open>
  \<open>cell.text = s\<close>, once \<open>s\<close> is written: the cell's content becomes one paragraph
  with one run.
\<close>

definition cell_set_text :: "cell \<Rightarrow> ustr \<Rightarrow> cell" where
  "cell_set_text c s = c\<lparr>c_para := new_paragraph\<lparr>p_content := [Run (new_run s)]\<rparr>\<rparr>"

text \<open>\<open>cell.paragraphs[0].runs[0].bold = True\<close>, on a cell that has a run.\<close>

fun bold_first_run :: "inline list \<Rightarrow> inline list" where
  "bold_first_run [] = []"
| "bold_first_run (Run r # xs) = Run (r\<lparr>r_bold := True\<rparr>) # xs"
| "bold_first_run (Hyperlink h # xs) = Hyperlink h # bold_first_run xs"

definition cell_bold_first_run :: "cell \<Rightarrow> cell" where
  "cell_bold_first_run c = c\<lparr>c_para := (c_para c)\<lparr>p_content := bold_first_run (p_content (c_para c))\<rparr>\<rparr>"

text \<open>
  \<open>for cell in row: for paragraph in cell.paragraphs: paragraph.paragraph_format.space_after = 0\<close>
\<close>

definition row_no_space_after :: "cell list \<Rightarrow> cell list" where
  "row_no_space_after row = map (\<lambda>c. c\<lparr>c_para := (c_para c)\<lparr>p_space_after := Some 0\<rparr>\<rparr>) row"

text \<open>
  The four statements that fill a cell of a layout table: take the cell's paragraph, set
  its alignment, set \<open>space_after = Pt(0)\<close>, and add the formatted run.
\<close>

definition cell_add_run :: "cell \<Rightarrow> align \<Rightarrow> run \<Rightarrow> cell" where
  "cell_add_run c a r =
     c\<lparr>c_para := add_run ((c_para c)\<lparr>p_alignment := Some a, p_space_after := Some (Pt 0)\<rparr>) r\<rparr>"

text \<open>A \<open>w:tblBorders\<close> element: the six borders, all with the same four attributes.\<close>

definition tblBorders :: "string \<Rightarrow> string \<Rightarrow> string \<Rightarrow> string \<Rightarrow> tbl_borders" where
  "tblBorders val sz space color =
     map (\<lambda>border_name. (border_name, val, sz, space, color))
       [''top'', ''left'', ''bottom'', ''right'', ''insideH'', ''insideV'']"

definition table_add_row :: "table \<Rightarrow> cell list \<Rightarrow> table" where
  "table_add_row t row = t\<lparr>t_rows := t_rows t @ [row]\<rparr>"

section \<open>The class \<open>DocumentGenerator\<close> (app/services/document_service.py)\<close>

text \<open>
  The methods keep their names, with the prefix \<open>DG_\<close> in place of the leading
  underscore. An exception abandons the document under construction, so every method
  returns either the error or the document with its new blocks.
\<close>

definition DG_set_table_borders :: "table \<Rightarrow> table" where
  "DG_set_table_borders t =
     t\<lparr>t_borders := t_borders t @ [tblBorders ''single'' ''4'' ''0'' ''000000'']\<rparr>"

definition DG_add_section_separator :: "document \<Rightarrow> document" where
  "DG_add_section_separator doc = add_block doc (Para new_paragraph)"

definition DG_add_hyperlink :: "lib \<Rightarrow> para \<Rightarrow> ustr \<Rightarrow> ustr \<Rightarrow> error + para" where
  "DG_add_hyperlink L p text url =
     bindE (str_arg L HyperlinkText text) (\<lambda>text.
     Inr (p\<lparr>p_content := p_content p @
        [Hyperlink \<lparr>h_url = url,
           h_b = (case runs (p_content p) of [] \<Rightarrow> False | r # rs \<Rightarrow> r_bold (last (r # rs))),
           h_color = ''0000FF'', h_u = ''single'', h_text = text\<rparr>]\<rparr>))"

text \<open>Line 282: the four replacements applied to \<open>job['dates']\<close>.\<close>

definition DG_job_dates :: "ustr \<Rightarrow> ustr" where
  "DG_job_dates dates =
     py_replace [SPACE, SPACE] [SPACE]
       (py_replace [U_2014] [HYPHEN]
         (py_replace [U_2013] [HYPHEN]
           (py_replace [U_00E2] [HYPHEN] dates)))"

definition DG_add_work_experience :: "lib \<Rightarrow> document \<Rightarrow> json \<Rightarrow> error + document" where
  "DG_add_work_experience L doc job =
    (let table = add_table 2 2 in
     bindE (py_getitem job (ascii ''company'')) (\<lambda>company.
     bindE (text_arg L AddRun company) (\<lambda>company.
     let table = set_table_cell table 0 0 (cell_add_run (table_cell table 0 0) LEFT
                   ((new_run company)\<lparr>r_italic := True, r_bold := True\<rparr>)) in
     bindE (py_getitem job (ascii ''role'')) (\<lambda>role.
     bindE (text_arg L AddRun role) (\<lambda>role.
     let table = set_table_cell table 1 0 (cell_add_run (table_cell table 1 0) LEFT
                   ((new_run role)\<lparr>r_italic := True\<rparr>)) in
     bindE (py_getitem job (ascii ''location'')) (\<lambda>location.
     bindE (text_arg L AddRun location) (\<lambda>location.
     let table = set_table_cell table 0 1 (cell_add_run (table_cell table 0 1) RIGHT
                   ((new_run location)\<lparr>r_bold := True, r_italic := True\<rparr>)) in
     bindE (py_getitem job (ascii ''dates'')) (\<lambda>dates.
     bindE (py_str_receiver dates) (\<lambda>dates.
     bindE (str_arg L AddRun (DG_job_dates dates)) (\<lambda>dates.
     let table = set_table_cell table 1 1 (cell_add_run (table_cell table 1 1) RIGHT
                   ((new_run dates)\<lparr>r_italic := True\<rparr>));
         table = table\<lparr>t_borders := t_borders table @ [tblBorders ''none'' ''0'' ''0'' ''auto'']\<rparr>
     in Inr (add_block doc (Table table))))))))))))"

text \<open>Line 321: the three replacements applied to \<open>education['degree']\<close>.\<close>

definition DG_degree_text :: "ustr \<Rightarrow> ustr" where
  "DG_degree_text degree_text =
     py_replace [U_00E2] [APOSTROPHE]
       (py_replace [U_00E2] [APOSTROPHE]
         (py_replace [U_00E2] [APOSTROPHE] degree_text))"

definition DG_add_education :: "lib \<Rightarrow> document \<Rightarrow> json \<Rightarrow> error + document" where
  "DG_add_education L doc education =
    (let table = add_table 2 2 in
     bindE (py_getitem education (ascii ''institution'')) (\<lambda>institution.
     bindE (text_arg L AddRun institution) (\<lambda>institution.
     let table = set_table_cell table 0 0 (cell_add_run (table_cell table 0 0) LEFT
                   ((new_run institution)\<lparr>r_italic := True, r_bold := True\<rparr>));
         table = set_table_cell table 1 0 ((table_cell table 1 0)\<lparr>c_width := Some (Inches10 50)\<rparr>) in
     bindE (py_getitem education (ascii ''degree'')) (\<lambda>degree_text.
     bindE (py_str_receiver degree_text) (\<lambda>degree_text.
     bindE (str_arg L AddRun (DG_degree_text degree_text)) (\<lambda>degree_text.
     let table = set_table_cell table 1 0 (cell_add_run (table_cell table 1 0) LEFT
                   ((new_run degree_text)\<lparr>r_italic := True\<rparr>)) in
     bindE (py_getitem education (ascii ''location'')) (\<lambda>location.
     bindE (text_arg L AddRun location) (\<lambda>location.
     let table = set_table_cell table 0 1 (cell_add_run (table_cell table 0 1) RIGHT
                   ((new_run location)\<lparr>r_bold := True, r_italic := True\<rparr>)) in
     bindE (py_getitem education (ascii ''graduation_year'')) (\<lambda>graduation_year.
     bindE (py_str_receiver graduation_year) (\<lambda>graduation_year.
     let dates = py_replace [SPACE, SPACE] [SPACE] (py_replace [U_00E2] [HYPHEN] graduation_year) in
     bindE (str_arg L AddRun (ascii ''Graduation: '' @ dates)) (\<lambda>graduation.
     let table = set_table_cell table 1 1 (cell_add_run (table_cell table 1 1) RIGHT
                   ((new_run graduation)\<lparr>r_italic := True\<rparr>));
         table = table\<lparr>t_borders := t_borders table @ [tblBorders ''none'' ''0'' ''0'' ''auto'']\<rparr>
     in Inr (add_block doc (Table table)))))))))))))"

subsection \<open>\<open>_generate_document\<close>, block by block\<close>

text \<open>Lines 81 to 85: a string input is decoded first.\<close>

definition decode_input :: "lib \<Rightarrow> json \<Rightarrow> error + json" where
  "decode_input L resume_data =
     (case resume_data of
        JStr s \<Rightarrow>
          (case json_loads L s of
             Inl msg \<Rightarrow> Inl (ValueError (ascii ''Invalid JSON string: '' @ msg))
           | Inr v \<Rightarrow> Inr v)
      | _ \<Rightarrow> Inr resume_data)"

text \<open>Lines 87 and 88; \<open>or\<close> evaluates its second operand only when the first is false.\<close>

definition contact_message :: ustr where
  "contact_message = ascii ''Missing or invalid contact information''"

definition check_contact :: "json \<Rightarrow> error + unit" where
  "check_contact resume_data =
     bindE (py_contains resume_data (ascii ''contact'')) (\<lambda>present.
       if \<not> present then Inl (ValueError contact_message)
       else bindE (py_getitem resume_data (ascii ''contact'')) (\<lambda>contact.
         if \<not> is_dict contact then Inl (ValueError contact_message) else Inr ()))"

text \<open>Lines 93 to 105.\<close>

definition set_default_styles :: "document \<Rightarrow> document" where
  "set_default_styles doc =
     doc\<lparr>d_font_name := Some ''Helvetica Neue'', d_font_size := Some (Pt 10),
         d_margins := Some (Inches10 5, Inches10 5, Inches10 5, Inches10 5)\<rparr>"

text \<open>\<open>resume_data['contact'][field]\<close>\<close>

definition contact_field :: "json \<Rightarrow> ustr \<Rightarrow> error + json" where
  "contact_field resume_data field =
     bindE (py_getitem resume_data (ascii ''contact'')) (\<lambda>contact. py_getitem contact field)"

text \<open>
  Lines 107 to 149, the header. The module-level renderer has the same text and calls its
  own hyperlink function, so that function is a parameter.
\<close>

definition contact_information ::
  "(lib \<Rightarrow> para \<Rightarrow> ustr \<Rightarrow> ustr \<Rightarrow> error + para) \<Rightarrow> lib \<Rightarrow> document \<Rightarrow> json \<Rightarrow> error + document" where
  "contact_information hyperlink L doc resume_data =
    (let contact = new_paragraph\<lparr>p_alignment := Some CENTER, p_space_after := Some (Pt 0)\<rparr> in
     bindE (contact_field resume_data (ascii ''name'')) (\<lambda>name.
     bindE (text_arg L AddRun name) (\<lambda>name.
     let contact = add_run contact ((new_run name)\<lparr>r_bold := True\<rparr>);
         contact_p = new_paragraph\<lparr>p_alignment := Some CENTER, p_space_after := Some (Pt 0),
                        p_space_before := Some (Pt 0)\<rparr> in
     bindE (contact_field resume_data (ascii ''email'')) (\<lambda>email.
     bindE (py_str_receiver email) (\<lambda>email.
     let email = py_strip email in
     bindE (hyperlink L contact_p email (ascii ''mailto:'' @ email)) (\<lambda>contact_p.
     let contact_p = add_run contact_p ((new_run (ascii '' || ''))\<lparr>r_bold := True\<rparr>) in
     bindE (contact_field resume_data (ascii ''phone'')) (\<lambda>phone.
     bindE (py_str_receiver phone) (\<lambda>phone.
     bindE (str_arg L AddRun (py_strip phone)) (\<lambda>phone.
     let contact_p = add_run contact_p ((new_run phone)\<lparr>r_bold := True\<rparr>);
         contact_p = add_run contact_p ((new_run (ascii '' || ''))\<lparr>r_bold := True\<rparr>) in
     bindE (contact_field resume_data (ascii ''linkedin'')) (\<lambda>linkedin.
     bindE (py_str_receiver linkedin) (\<lambda>linkedin.
     let linkedin_text = py_strip linkedin;
         linkedin_url = linkedin_text;
         linkedin_url = (if \<not> py_startswith linkedin_url (ascii ''http'')
                         then ascii ''https://'' @ linkedin_url else linkedin_url) in
     bindE (hyperlink L contact_p linkedin_text linkedin_url) (\<lambda>contact_p.
     let title_p = new_paragraph\<lparr>p_alignment := Some CENTER, p_space_after := Some (Pt 0),
                      p_space_before := Some (Pt 2)\<rparr> in
     bindE (py_getitem resume_data (ascii ''title'')) (\<lambda>title.
     bindE (text_arg L AddRun title) (\<lambda>title.
     let title_p = add_run title_p ((new_run title)\<lparr>r_underline := True, r_bold := True\<rparr>)
     in Inr (doc\<lparr>d_body := d_body doc @
               [Para contact, Para contact_p, Para title_p,
                Para (paragraph_of [] (Some ''Normal''))]\<rparr>)))))))))))))))"

text \<open>Lines 151 to 155.\<close>

definition professional_summary :: "lib \<Rightarrow> document \<Rightarrow> json \<Rightarrow> error + document" where
  "professional_summary L doc resume_data =
    (let summary_heading =
           add_run new_paragraph ((new_run (ascii ''Professional Summary:''))\<lparr>r_bold := True\<rparr>) in
     bindE (py_getitem resume_data (ascii ''summary'')) (\<lambda>summary.
     bindE (text_arg L AddParagraph summary) (\<lambda>summary.
     Inr (doc\<lparr>d_body := d_body doc @
            [Para summary_heading, Para (paragraph_of summary None)]\<rparr>))))"

text \<open>
  Lines 161 to 186: the skills table with its header row. The placeholder row is removed
  and the header row added; \<open>set_borders\<close> is the border function of the caller.
\<close>

definition skills_header_row :: "cell list" where
  "skills_header_row =
    (let row = [cell_set_text new_cell (ascii ''Category''),
                cell_set_text new_cell (ascii ''Skills/Tools'')];
         row = [cell_bold_first_run (row ! 0), cell_bold_first_run (row ! 1)]
     in row_no_space_after row)"

definition skills_table_header :: "(table \<Rightarrow> table) \<Rightarrow> table" where
  "skills_table_header set_borders =
    (let skills_table = add_table 1 2;
         skills_table = skills_table\<lparr>t_alignment := Some CENTER, t_autofit := Some False\<rparr>;
         skills_table = set_borders skills_table;
         skills_table = skills_table\<lparr>t_col_widths := [Some (Inches10 20), Some (Inches10 55)]\<rparr>;
         skills_table = skills_table\<lparr>t_rows := tl (t_rows skills_table)\<rparr>
     in table_add_row skills_table skills_header_row)"

text \<open>Line 199: the text of the right cell, written into the cell.\<close>

definition skills_text :: "lib \<Rightarrow> json \<Rightarrow> error + ustr" where
  "skills_text L skills =
     (case skills of
        JList xs \<Rightarrow> bindE (py_str_items xs) (\<lambda>ss. str_arg L CellText (py_join (ascii '', '') ss))
      | _ \<Rightarrow> text_arg L CellText skills)"

text \<open>
  Lines 197 to 208: one data row, once its two texts are written; the category is made
  bold if its cell has a run.
\<close>

definition skills_data_row :: "ustr \<Rightarrow> ustr \<Rightarrow> cell list" where
  "skills_data_row category text =
    (let row0 = cell_set_text new_cell category;
         row1 = cell_set_text new_cell text;
         row0 = (if runs (p_content (c_para row0)) \<noteq> [] then cell_bold_first_run row0 else row0)
     in row_no_space_after [row0, row1])"

text \<open>Lines 194 to 208: the loop over \<open>skill_order\<close>.\<close>

fun DG_skill_rows :: "lib \<Rightarrow> (ustr \<times> json) list \<Rightarrow> json list \<Rightarrow> table \<Rightarrow> error + table" where
  "DG_skill_rows L technical_skills [] skills_table = Inr skills_table"
| "DG_skill_rows L technical_skills (category # rest) skills_table =
     bindE (py_dict_find technical_skills category) (\<lambda>found.
       case found of
         None \<Rightarrow> DG_skill_rows L technical_skills rest skills_table
       | Some (k, skills) \<Rightarrow>
           bindE (str_arg L CellText k) (\<lambda>k.
           bindE (skills_text L skills) (\<lambda>text.
             DG_skill_rows L technical_skills rest
               (table_add_row skills_table (skills_data_row k text)))))"

text \<open>Lines 157 to 210.\<close>

definition DG_technical_skills :: "lib \<Rightarrow> document \<Rightarrow> json \<Rightarrow> error + document" where
  "DG_technical_skills L doc resume_data =
    (let skills_heading =
           add_run new_paragraph ((new_run (ascii ''Technical Skills:''))\<lparr>r_bold := True\<rparr>);
         doc = add_block doc (Para skills_heading);
         skills_table = skills_table_header DG_set_table_borders in
     bindE (py_getitem resume_data (ascii ''technical_skills'')) (\<lambda>technical_skills.
     bindE (case technical_skills of
              JDict d \<Rightarrow>
                bindE (py_get resume_data (ascii ''skill_order'') (py_keys d)) (\<lambda>skill_order.
                bindE (py_iter skill_order) (\<lambda>categories.
                  DG_skill_rows L d categories skills_table))
            | _ \<Rightarrow> Inr skills_table) (\<lambda>skills_table.
     Inr (DG_add_section_separator (add_block doc (Table skills_table))))))"

text \<open>Lines 220 to 222: the achievements of one job.\<close>

definition achievement_text :: "ustr \<Rightarrow> ustr" where
  "achievement_text achievement = py_strip (py_replace [U_25CF] [] achievement)"

fun achievements_loop :: "lib \<Rightarrow> document \<Rightarrow> json list \<Rightarrow> error + document" where
  "achievements_loop L doc [] = Inr doc"
| "achievements_loop L doc (achievement # rest) =
     bindE (py_str_receiver achievement) (\<lambda>achievement.
     bindE (doc_add_paragraph L (achievement_text achievement) (Some ''ListBullet'')) (\<lambda>p.
       achievements_loop L (add_block doc (Para p)) rest))"

text \<open>Lines 216 to 222: the loop over the jobs; \<open>add_job\<close> is the caller's table function.\<close>

fun jobs_loop ::
  "(lib \<Rightarrow> document \<Rightarrow> json \<Rightarrow> error + document) \<Rightarrow> lib \<Rightarrow> document \<Rightarrow> json list \<Rightarrow> error + document" where
  "jobs_loop add_job L doc [] = Inr doc"
| "jobs_loop add_job L doc (job # rest) =
     bindE (add_job L doc job) (\<lambda>doc.
     bindE (py_getitem job (ascii ''achievements'')) (\<lambda>achievements.
     bindE (py_iter achievements) (\<lambda>achievements.
     bindE (achievements_loop L doc achievements) (\<lambda>doc.
       jobs_loop add_job L doc rest))))"

text \<open>Lines 212 to 222.\<close>

definition work_experience ::
  "(lib \<Rightarrow> document \<Rightarrow> json \<Rightarrow> error + document) \<Rightarrow> lib \<Rightarrow> document \<Rightarrow> json \<Rightarrow> error + document" where
  "work_experience add_job L doc resume_data =
    (let work_exp_heading =
           add_run new_paragraph ((new_run (ascii ''Work Experience''))\<lparr>r_bold := True\<rparr>);
         doc = add_block doc (Para work_exp_heading) in
     bindE (py_getitem resume_data (ascii ''work_experience'')) (\<lambda>jobs.
     bindE (py_iter jobs) (\<lambda>jobs.
       jobs_loop add_job L doc jobs)))"

text \<open>Lines 224 to 227.\<close>

definition education_block ::
  "(lib \<Rightarrow> document \<Rightarrow> json \<Rightarrow> error + document) \<Rightarrow> lib \<Rightarrow> document \<Rightarrow> json \<Rightarrow> error + document" where
  "education_block add_edu L doc resume_data =
    (let edu_heading =
           add_run new_paragraph ((new_run (ascii ''Education:''))\<lparr>r_bold := True\<rparr>);
         doc = add_block doc (Para edu_heading) in
     bindE (py_getitem resume_data (ascii ''education'')) (\<lambda>education.
       add_edu L doc education))"

text \<open>\<open>_generate_document\<close>\<close>

definition DG_generate_document :: "lib \<Rightarrow> json \<Rightarrow> error + document" where
  "DG_generate_document L resume_data =
     bindE (decode_input L resume_data) (\<lambda>resume_data.
     bindE (check_contact resume_data) (\<lambda>_.
     bindE (contact_information DG_add_hyperlink L (set_default_styles Document) resume_data) (\<lambda>doc.
     bindE (professional_summary L doc resume_data) (\<lambda>doc.
     bindE (DG_technical_skills L doc resume_data) (\<lambda>doc.
     bindE (work_experience DG_add_work_experience L doc resume_data) (\<lambda>doc.
       education_block DG_add_education L doc resume_data))))))"

section \<open>The module-level renderer (doc_generator.py)\<close>

definition set_table_borders :: "table \<Rightarrow> table" where
  "set_table_borders t =
     t\<lparr>t_borders := t_borders t @ [tblBorders ''single'' ''4'' ''0'' ''000000'']\<rparr>"

definition add_section_separator :: "document \<Rightarrow> document" where
  "add_section_separator doc = add_block doc (Para new_paragraph)"

definition add_hyperlink :: "lib \<Rightarrow> para \<Rightarrow> ustr \<Rightarrow> ustr \<Rightarrow> error + para" where
  "add_hyperlink L p text url =
     bindE (str_arg L HyperlinkText text) (\<lambda>text.
     Inr (p\<lparr>p_content := p_content p @
        [Hyperlink \<lparr>h_url = url,
           h_b = (case runs (p_content p) of [] \<Rightarrow> False | r # rs \<Rightarrow> r_bold (last (r # rs))),
           h_color = ''0000FF'', h_u = ''single'', h_text = text\<rparr>]\<rparr>))"

definition add_work_experience :: "lib \<Rightarrow> document \<Rightarrow> json \<Rightarrow> error + document" where
  "add_work_experience L doc job =
    (let table = add_table 2 2 in
     bindE (py_getitem job (ascii ''company'')) (\<lambda>company.
     bindE (text_arg L AddRun company) (\<lambda>company.
     let table = set_table_cell table 0 0 (cell_add_run (table_cell table 0 0) LEFT
                   ((new_run company)\<lparr>r_italic := True, r_bold := True\<rparr>)) in
     bindE (py_getitem job (ascii ''role'')) (\<lambda>role.
     bindE (text_arg L AddRun role) (\<lambda>role.
     let table = set_table_cell table 1 0 (cell_add_run (table_cell table 1 0) LEFT
                   ((new_run role)\<lparr>r_italic := True\<rparr>)) in
     bindE (py_getitem job (ascii ''location'')) (\<lambda>location.
     bindE (text_arg L AddRun location) (\<lambda>location.
     let table = set_table_cell table 0 1 (cell_add_run (table_cell table 0 1) RIGHT
                   ((new_run location)\<lparr>r_bold := True, r_italic := True\<rparr>)) in
     bindE (py_getitem job (ascii ''dates'')) (\<lambda>dates.
     bindE (py_str_receiver dates) (\<lambda>dates.
     bindE (str_arg L AddRun
              (py_replace [SPACE, SPACE] [SPACE]
                (py_replace [U_2014] [HYPHEN]
                  (py_replace [U_2013] [HYPHEN]
                    (py_replace [U_00E2] [HYPHEN] dates))))) (\<lambda>dates.
     let table = set_table_cell table 1 1 (cell_add_run (table_cell table 1 1) RIGHT
                   ((new_run dates)\<lparr>r_italic := True\<rparr>));
         table = table\<lparr>t_borders := t_borders table @ [tblBorders ''none'' ''0'' ''0'' ''auto'']\<rparr>
     in Inr (add_block doc (Table table))))))))))))"

definition add_education :: "lib \<Rightarrow> document \<Rightarrow> json \<Rightarrow> error + document" where
  "add_education L doc education =
    (let table = add_table 2 2 in
     bindE (py_getitem education (ascii ''institution'')) (\<lambda>institution.
     bindE (text_arg L AddRun institution) (\<lambda>institution.
     let table = set_table_cell table 0 0 (cell_add_run (table_cell table 0 0) LEFT
                   ((new_run institution)\<lparr>r_italic := True, r_bold := True\<rparr>));
         table = set_table_cell table 1 0 ((table_cell table 1 0)\<lparr>c_width := Some (Inches10 50)\<rparr>) in
     bindE (py_getitem education (ascii ''degree'')) (\<lambda>degree_text.
     bindE (py_str_receiver degree_text) (\<lambda>degree_text.
     bindE (str_arg L AddRun
              (py_replace [U_00E2] [APOSTROPHE]
                (py_replace [U_00E2] [APOSTROPHE]
                  (py_replace [U_00E2] [APOSTROPHE] degree_text)))) (\<lambda>degree_text.
     let table = set_table_cell table 1 0 (cell_add_run (table_cell table 1 0) LEFT
                   ((new_run degree_text)\<lparr>r_italic := True\<rparr>)) in
     bindE (py_getitem education (ascii ''location'')) (\<lambda>location.
     bindE (text_arg L AddRun location) (\<lambda>location.
     let table = set_table_cell table 0 1 (cell_add_run (table_cell table 0 1) RIGHT
                   ((new_run location)\<lparr>r_bold := True, r_italic := True\<rparr>)) in
     bindE (py_getitem education (ascii ''graduation_year'')) (\<lambda>graduation_year.
     bindE (py_str_receiver graduation_year) (\<lambda>graduation_year.
     let dates = py_replace [SPACE, SPACE] [SPACE] (py_replace [U_00E2] [HYPHEN] graduation_year) in
     bindE (str_arg L AddRun (ascii ''Graduation: '' @ dates)) (\<lambda>graduation.
     let table = set_table_cell table 1 1 (cell_add_run (table_cell table 1 1) RIGHT
                   ((new_run graduation)\<lparr>r_italic := True\<rparr>));
         table = table\<lparr>t_borders := t_borders table @ [tblBorders ''none'' ''0'' ''0'' ''auto'']\<rparr>
     in Inr (add_block doc (Table table)))))))))))))"

text \<open>Lines 450 to 462: the loop over the items of the mapping.\<close>

fun skill_rows :: "lib \<Rightarrow> (ustr \<times> json) list \<Rightarrow> table \<Rightarrow> error + table" where
  "skill_rows L [] skills_table = Inr skills_table"
| "skill_rows L ((category, skills) # rest) skills_table =
     bindE (str_arg L CellText category) (\<lambda>category.
     bindE (skills_text L skills) (\<lambda>text.
       skill_rows L rest (table_add_row skills_table (skills_data_row category text))))"

text \<open>Lines 416 to 464.\<close>

definition technical_skills :: "lib \<Rightarrow> document \<Rightarrow> json \<Rightarrow> error + document" where
  "technical_skills L doc resume_data =
    (let skills_heading =
           add_run new_paragraph ((new_run (ascii ''Technical Skills:''))\<lparr>r_bold := True\<rparr>);
         doc = add_block doc (Para skills_heading);
         skills_table = skills_table_header set_table_borders in
     bindE (py_getitem resume_data (ascii ''technical_skills'')) (\<lambda>technical_skills.
     bindE (case technical_skills of
              JDict d \<Rightarrow> skill_rows L d skills_table
            | _ \<Rightarrow> Inr skills_table) (\<lambda>skills_table.
     Inr (add_section_separator (add_block doc (Table skills_table))))))"

text \<open>
  \<open>create_resume_document\<close>: the document it saves under \<open>filename\<close>; the writing of
  the file is not modelled. Outside the skills rows its text is that of
  \<open>_generate_document\<close>, with the module's own helpers.
\<close>

definition create_resume_document :: "lib \<Rightarrow> json \<Rightarrow> error + document" where
  "create_resume_document L resume_data =
     bindE (decode_input L resume_data) (\<lambda>resume_data.
     bindE (check_contact resume_data) (\<lambda>_.
     bindE (contact_information add_hyperlink L (set_default_styles Document) resume_data) (\<lambda>doc.
     bindE (professional_summary L doc resume_data) (\<lambda>doc.
     bindE (technical_skills L doc resume_data) (\<lambda>doc.
     bindE (work_experience add_work_experience L doc resume_data) (\<lambda>doc.
       education_block add_education L doc resume_data))))))"

section \<open>Sample inputs and reference functions\<close>

text \<open>
  A library instance for concrete runs. Its decoder knows no string, its primitives raise
  \<open>TypeError\<close> on every argument that is not a string, and they refuse a text as lxml
  does: when it holds a character that XML does not allow (a NUL, a control character
  other than tab, line feed and carriage return, a surrogate, U+FFFE or U+FFFF).
\<close>

definition xml_char :: "nat \<Rightarrow> bool" where
  "xml_char c \<longleftrightarrow>
     c = 9 \<or> c = 10 \<or> c = 13 \<or> (32 \<le> c \<and> c < 55296) \<or> (57344 \<le> c \<and> c < 65534) \<or> 65536 \<le> c"

definition xml_message :: ustr where
  "xml_message = ascii ''All strings must be XML compatible: Unicode or ASCII, no NULL bytes or control characters''"

definition lxml_rejects :: "prim \<Rightarrow> ustr \<Rightarrow> ustr option" where
  "lxml_rejects p s = (if list_all xml_char s then None else Some xml_message)"

definition lib0 :: lib where
  "lib0 = \<lparr>json_loads = (\<lambda>s. Inl (ascii ''Expecting value'')), nonstr_text = (\<lambda>p v. None),
           rejects = lxml_rejects\<rparr>"

definition sample_job :: json where
  "sample_job = JDict
     [(ascii ''company'', JStr (ascii ''Acme'')),
      (ascii ''location'', JStr (ascii ''Oslo'')),
      (ascii ''role'', JStr (ascii ''Engineer'')),
      (ascii ''dates'', JStr (ascii ''Jan 2020 '' @ [U_2013] @ ascii '' Present'')),
      (ascii ''achievements'', JList [JStr ([U_25CF] @ ascii '' Led team of 5'')])]"

definition sample_contact :: json where
  "sample_contact = JDict
     [(ascii ''name'', JStr (ascii ''Asi Sub'')),
      (ascii ''email'', JStr (ascii ''asi@example.com'')),
      (ascii ''phone'', JStr (ascii ''555-0100'')),
      (ascii ''linkedin'', JStr (ascii ''linkedin.com/in/asisub''))]"

definition sample_education :: json where
  "sample_education = JDict
     [(ascii ''institution'', JStr (ascii ''NTNU'')),
      (ascii ''location'', JStr (ascii ''Trondheim'')),
      (ascii ''degree'', JStr (ascii ''BSc'')),
      (ascii ''graduation_year'', JStr (ascii ''2019''))]"

definition sample_skills :: "(ustr \<times> json) list" where
  "sample_skills =
     [(ascii ''B'', JList [JStr (ascii ''y'')]),
      (ascii ''A'', JList [JStr (ascii ''x''), JStr (ascii ''z'')])]"

definition sample_fields :: "(ustr \<times> json) list" where
  "sample_fields =
     [(ascii ''contact'', sample_contact),
      (ascii ''title'', JStr (ascii ''Engineer'')),
      (ascii ''summary'', JStr (ascii ''Builds things.'')),
      (ascii ''technical_skills'', JDict sample_skills),
      (ascii ''skill_order'', JList [JStr (ascii ''A''), JStr (ascii ''B'')]),
      (ascii ''work_experience'', JList [sample_job]),
      (ascii ''education'', sample_education)]"

definition sample_resume :: json where
  "sample_resume = JDict sample_fields"

subsection \<open>The text of a cell and the places of the blocks\<close>

definition para_text :: "para \<Rightarrow> ustr list" where
  "para_text p = map r_text (runs (p_content p))"

definition cell_text :: "cell \<Rightarrow> ustr list" where
  "cell_text c = para_text (c_para c)"

subsection \<open>Date sanitisation, as the specification words it\<close>

text \<open>
  The dash artifacts of the claim: the en dash, the em dash and the non-breaking hyphen,
  and the three characters each of them becomes when its UTF-8 bytes are decoded as
  Windows-1252 (\<open>E2 80 93\<close>, \<open>E2 80 94\<close>, \<open>E2 80 91\<close>). Each artifact becomes one plain
  hyphen, the longer ones first; then every pair of consecutive spaces becomes one space,
  pairs being taken from the left.
\<close>

definition U_2011 :: nat where "U_2011 = 8209"     \<comment> \<open>non-breaking hyphen\<close>
definition U_20AC :: nat where "U_20AC = 8364"     \<comment> \<open>euro sign, byte 80 in Windows-1252\<close>
definition U_201C :: nat where "U_201C = 8220"     \<comment> \<open>left double quote, byte 93\<close>
definition U_201D :: nat where "U_201D = 8221"     \<comment> \<open>right double quote, byte 94\<close>
definition U_2018 :: nat where "U_2018 = 8216"     \<comment> \<open>left single quote, byte 91\<close>

definition dash_artifacts :: "ustr list" where
  "dash_artifacts =
     [[U_00E2, U_20AC, U_201C], [U_00E2, U_20AC, U_201D], [U_00E2, U_20AC, U_2018],
      [U_2013], [U_2014], [U_2011]]"

definition replace_dash_artifacts :: "ustr \<Rightarrow> ustr" where
  "replace_dash_artifacts s = foldl (\<lambda>t artifact. py_replace artifact [HYPHEN] t) s dash_artifacts"

fun collapse_two_spaces :: "ustr \<Rightarrow> ustr" where
  "collapse_two_spaces (a # b # xs) =
     (if a = SPACE \<and> b = SPACE then SPACE # collapse_two_spaces xs
      else a # collapse_two_spaces (b # xs))"
| "collapse_two_spaces xs = xs"

definition claim_sanitize_dates :: "ustr \<Rightarrow> ustr" where
  "claim_sanitize_dates s = collapse_two_spaces (replace_dash_artifacts s)"

text \<open>The sample job with other dates.\<close>

definition job_with_dates :: "ustr \<Rightarrow> json" where
  "job_with_dates dates = JDict
     [(ascii ''company'', JStr (ascii ''Acme'')),
      (ascii ''location'', JStr (ascii ''Oslo'')),
      (ascii ''role'', JStr (ascii ''Engineer'')),
      (ascii ''dates'', JStr dates),
      (ascii ''achievements'', JList [])]"

definition dates_with_nb_hyphen :: ustr where
  "dates_with_nb_hyphen = ascii ''Jan 2020 '' @ [U_2011] @ ascii '' Present''"

definition dates_misdecoded :: ustr where
  "dates_misdecoded = ascii ''Jan 2020 '' @ [U_00E2, U_20AC, U_201C] @ ascii '' Present''"

text \<open>What a renderer call put into cell \<open>(i, j)\<close> of the table that is block \<open>k\<close>.\<close>

definition table_at :: "document \<Rightarrow> nat \<Rightarrow> table option" where
  "table_at d k =
     (if k < length (d_body d)
      then (case d_body d ! k of Table t \<Rightarrow> Some t | Para p \<Rightarrow> None)
      else None)"

definition rendered_cell :: "error + document \<Rightarrow> nat \<Rightarrow> nat \<Rightarrow> nat \<Rightarrow> ustr list option" where
  "rendered_cell r k i j =
     (case r of
        Inl e \<Rightarrow> None
      | Inr d \<Rightarrow> map_option (\<lambda>t. cell_text (table_cell t i j)) (table_at d k))"

subsection \<open>The sanitizer of the specification\<close>

text \<open>
  The three rules of the specification's TextSanitizer in their order: dash artifacts to
  hyphens, pairs of spaces to one space, apostrophe artifacts to apostrophes. The
  apostrophe artifact is the one code point line 321 lists.
\<close>

definition TextSanitizer_sanitize :: "ustr \<Rightarrow> ustr" where
  "TextSanitizer_sanitize s =
     map (\<lambda>c. if c = U_00E2 then APOSTROPHE else c)
       (collapse_two_spaces (replace_dash_artifacts s))"

definition degree_with_dash :: ustr where
  "degree_with_dash = ascii ''BSc '' @ [U_2013] @ ascii ''  CS''"

definition education_with_dash :: json where
  "education_with_dash = JDict
     [(ascii ''institution'', JStr (ascii ''NTNU'')),
      (ascii ''location'', JStr (ascii ''Trondheim'')),
      (ascii ''degree'', JStr degree_with_dash),
      (ascii ''graduation_year'', JStr (ascii ''2019''))]"

subsection \<open>Bullet stripping, as the specification words it\<close>

text \<open>The text trimmed, the bullet glyphs at its start dropped, and trimmed again.\<close>

definition strip_leading_bullet :: "ustr \<Rightarrow> ustr" where
  "strip_leading_bullet s = py_strip (dropWhile (\<lambda>c. c = U_25CF) (py_strip s))"

definition bullet_paragraph :: "ustr \<Rightarrow> block" where
  "bullet_paragraph text = Para (paragraph_of text (Some ''ListBullet''))"

definition inner_bullet :: ustr where
  "inner_bullet = ascii ''Led '' @ [U_25CF] @ ascii '' team''"

subsection \<open>The contact line\<close>

text \<open>The hyperlinks of the second paragraph of the document: displayed text and target.\<close>

fun hyperlinks :: "inline list \<Rightarrow> hyperlink list" where
  "hyperlinks [] = []"
| "hyperlinks (Run r # xs) = hyperlinks xs"
| "hyperlinks (Hyperlink h # xs) = h # hyperlinks xs"

definition para_at :: "document \<Rightarrow> nat \<Rightarrow> para option" where
  "para_at d k =
     (if k < length (d_body d)
      then (case d_body d ! k of Para p \<Rightarrow> Some p | Table t \<Rightarrow> None)
      else None)"

definition contact_links :: "error + document \<Rightarrow> (ustr \<times> ustr) list" where
  "contact_links r =
     (case r of
        Inl e \<Rightarrow> []
      | Inr d \<Rightarrow>
          (case para_at d 1 of
             None \<Rightarrow> []
           | Some p \<Rightarrow> map (\<lambda>h. (h_text h, h_url h)) (hyperlinks (p_content p))))"

text \<open>Lines 131 to 135 on the trimmed identifier.\<close>

definition link_target :: "ustr \<Rightarrow> ustr" where
  "link_target t = (if py_startswith t (ascii ''http'') then t else ascii ''https://'' @ t)"

text \<open>The sample resume with another contact record.\<close>

definition resume_with_contact :: "json \<Rightarrow> json" where
  "resume_with_contact c = JDict ((ascii ''contact'', c) # tl sample_fields)"

definition spaced_contact :: json where
  "spaced_contact = JDict
     [(ascii ''name'', JStr (ascii ''Asi Sub'')),
      (ascii ''email'', JStr (ascii ''asi@example.com'')),
      (ascii ''phone'', JStr (ascii ''555-0100'')),
      (ascii ''linkedin'', JStr (ascii '' linkedin.com/in/asisub''))]"

definition httpbin_contact :: json where
  "httpbin_contact = JDict
     [(ascii ''name'', JStr (ascii ''Asi Sub'')),
      (ascii ''email'', JStr (ascii ''asi@example.com'')),
      (ascii ''phone'', JStr (ascii ''555-0100'')),
      (ascii ''linkedin'', JStr (ascii ''httpbin.org/in/asisub''))]"

definition contact_without_email :: json where
  "contact_without_email = JDict
     [(ascii ''name'', JStr (ascii ''Asi Sub'')),
      (ascii ''phone'', JStr (ascii ''555-0100'')),
      (ascii ''linkedin'', JStr (ascii ''linkedin.com/in/asisub''))]"

text \<open>A contact record without email whose name holds the control character U+0001.\<close>

definition contact_control_name :: json where
  "contact_control_name = JDict
     [(ascii ''name'', JStr (ascii ''A'' @ [1] @ ascii ''B'')),
      (ascii ''phone'', JStr (ascii ''555-0100'')),
      (ascii ''linkedin'', JStr (ascii ''linkedin.com/in/asisub''))]"

subsection \<open>Errors\<close>

text \<open>
  The library raises no \<open>ValueError\<close> with the message of the renderer's contact check.
\<close>

definition keeps_contact_message :: "lib \<Rightarrow> bool" where
  "keeps_contact_message L \<longleftrightarrow> (\<forall>p s. rejects L p s \<noteq> Some contact_message)"

text \<open>
  A library instance whose decoder knows one text, standing for the JSON text of the
  sample resume.
\<close>

definition sample_text :: ustr where
  "sample_text = ascii ''sample_resume.json''"

definition lib1 :: lib where
  "lib1 = \<lparr>json_loads = (\<lambda>s. if s = sample_text then Inr sample_resume
                                else Inl (ascii ''Expecting value'')),
           nonstr_text = (\<lambda>p v. None), rejects = lxml_rejects\<rparr>"

subsection \<open>The skills table\<close>

text \<open>
  The skills table is the eighth block of the document, after the three header paragraphs,
  the blank paragraph, the two summary paragraphs and the skills heading.
\<close>

definition skills_table_rows :: "error + document \<Rightarrow> cell list list" where
  "skills_table_rows r =
     (case r of
        Inl e \<Rightarrow> []
      | Inr d \<Rightarrow> (case table_at d 7 of None \<Rightarrow> [] | Some t \<Rightarrow> t_rows t))"

text \<open>The category column of some rows: the run texts of each row's left cell.\<close>

definition category_column :: "cell list list \<Rightarrow> ustr list list" where
  "category_column rows = map (\<lambda>row. cell_text (row ! 0)) rows"

text \<open>
  The data row of the category \<open>c\<close>: \<open>c\<close> is a key of the mapping, the text of its value
  could be formed, and the row holds the two.
\<close>

definition is_skill_row :: "lib \<Rightarrow> (ustr \<times> json) list \<Rightarrow> cell list \<Rightarrow> ustr \<Rightarrow> bool" where
  "is_skill_row L ts row c \<longleftrightarrow>
     (\<exists>v text. map_of ts c = Some v \<and> skills_text L v = Inr text \<and> row = skills_data_row c text)"

subsection \<open>Skills that are no mapping\<close>

text \<open>The sample resume with a list in the place of the skills mapping.\<close>

definition list_skills_fields :: "(ustr \<times> json) list" where
  "list_skills_fields =
     AList.update (ascii ''technical_skills'') (JList [JStr (ascii ''x''), JStr (ascii ''y'')])
       sample_fields"

text \<open>A resume with its skills replaced by the empty mapping, and no \<open>skill_order\<close>.\<close>

definition with_empty_skills :: "(ustr \<times> json) list \<Rightarrow> (ustr \<times> json) list" where
  "with_empty_skills kvs =
     AList.update (ascii ''technical_skills'') (JDict [])
       (AList.delete (ascii ''skill_order'') kvs)"

section \<open>Basic facts\<close>

lemma bindE_Inl [simp]: "bindE (Inl e) f = Inl e"
  by (simp add: bindE_def)

lemma bindE_Inr [simp]: "bindE (Inr x) f = f x"
  by (simp add: bindE_def)

lemma bindE_eq_Inr: "bindE m f = Inr y \<longleftrightarrow> (\<exists>x. m = Inr x \<and> f x = Inr y)"
  by (cases m) simp_all

lemma bindE_eq_Inl: "bindE m f = Inl e \<longleftrightarrow> m = Inl e \<or> (\<exists>x. m = Inr x \<and> f x = Inl e)"
  by (cases m) simp_all

lemma ascii_eq_iff [simp]: "ascii s = ascii t \<longleftrightarrow> s = t"
  unfolding ascii_def by (simp add: inj_map_eq_map inj_on_def)

lemma py_replace_char: "py_replace [c] [d] s = map (\<lambda>x. if x = c then d else x) s"
  by (induction s) simp_all

lemma py_replace_remove: "py_replace [c] [] s = filter (\<lambda>x. x \<noteq> c) s"
  by (induction s) simp_all

lemma py_replace_two_spaces: "py_replace [SPACE, SPACE] [SPACE] s = collapse_two_spaces s"
  by (induction s rule: collapse_two_spaces.induct) auto

lemmas char_defs = U_00E2_def U_2013_def U_2014_def U_25CF_def SPACE_def HYPHEN_def APOSTROPHE_def
  U_2011_def U_20AC_def U_201C_def U_201D_def U_2018_def

lemma DG_job_dates_map:
  "DG_job_dates s
     = collapse_two_spaces (map (\<lambda>c. if c = U_00E2 \<or> c = U_2013 \<or> c = U_2014 then HYPHEN else c) s)"
proof -
  have "py_replace [U_2014] [HYPHEN] (py_replace [U_2013] [HYPHEN] (py_replace [U_00E2] [HYPHEN] s))
        = map (\<lambda>c. if c = U_00E2 \<or> c = U_2013 \<or> c = U_2014 then HYPHEN else c) s"
    by (auto simp: py_replace_char char_defs)
  then show ?thesis
    by (simp add: DG_job_dates_def py_replace_two_spaces)
qed

lemma str_arg_Inr: "str_arg L p s = Inr t \<Longrightarrow> t = s"
  by (simp add: str_arg_def split: if_splits option.splits)

lemma doc_add_paragraph_Inr: "doc_add_paragraph L s style = Inr p \<Longrightarrow> p = paragraph_of s style"
  by (auto simp: doc_add_paragraph_def bindE_eq_Inr dest: str_arg_Inr)

lemmas table_defs = table_cell_def set_table_cell_def add_table_def cell_add_run_def add_run_def
  new_cell_def new_paragraph_def new_run_def cell_text_def para_text_def numeral_2_eq_2

lemmas lib0_defs = lib0_def lxml_rejects_def xml_char_def str_arg_def text_arg_def
  doc_add_paragraph_def ascii_def char_defs

lemma d_body_Document [simp]: "d_body Document = []"
  by (simp add: Document_def)

lemma rendered_cell_add_block:
  "rendered_cell (Inr (add_block doc (Table t))) (length (d_body doc)) i j
     = Some (cell_text (table_cell t i j))"
  by (simp add: rendered_cell_def table_at_def add_block_def)

section \<open>Work experience: dates\<close>

lemma DG_add_work_experience_Inr:
  assumes "DG_add_work_experience L doc job = Inr doc'"
    and "py_getitem job (ascii ''dates'') = Inr (JStr dates)"
  shows "\<exists>t. doc' = add_block doc (Table t) \<and> cell_text (table_cell t 1 1) = [DG_job_dates dates]"
  using assms unfolding DG_add_work_experience_def Let_def bindE_eq_Inr
  by (auto simp: table_defs dest: str_arg_Inr)

lemma sample_job_renders: "\<exists>doc'. DG_add_work_experience lib0 Document sample_job = Inr doc'"
  by (simp add: DG_add_work_experience_def sample_job_def DG_job_dates_def Let_def lib0_defs)

lemma job_with_dates_cell:
  assumes "DG_add_work_experience L Document (job_with_dates dates) = Inr doc'"
  shows "rendered_cell (DG_add_work_experience L Document (job_with_dates dates)) 0 1 1
           = Some [DG_job_dates dates]"
proof -
  have "py_getitem (job_with_dates dates) (ascii ''dates'') = Inr (JStr dates)"
    by (simp add: job_with_dates_def)
  from DG_add_work_experience_Inr [OF assms this] obtain t where
    t: "doc' = add_block Document (Table t)" "cell_text (table_cell t 1 1) = [DG_job_dates dates]"
    by blast
  from rendered_cell_add_block [of Document t 1 1] t(2) show ?thesis
    by (simp add: assms t(1))
qed

lemma nb_hyphen_job_renders:
  "\<exists>doc'. DG_add_work_experience lib0 Document (job_with_dates dates_with_nb_hyphen) = Inr doc'"
  by (simp add: DG_add_work_experience_def job_with_dates_def dates_with_nb_hyphen_def
      DG_job_dates_def Let_def lib0_defs)

lemma misdecoded_job_renders:
  "\<exists>doc'. DG_add_work_experience lib0 Document (job_with_dates dates_misdecoded) = Inr doc'"
  by (simp add: DG_add_work_experience_def job_with_dates_def dates_misdecoded_def
      DG_job_dates_def Let_def lib0_defs)

text \<open>
  C5, as the code has it. For every job whose table is rendered, the text in the
  bottom-right cell of the job's layout table is the input dates string with every
  character U+00E2, U+2013 (en dash) and U+2014 (em dash) replaced by a plain hyphen and,
  after that, every pair of consecutive spaces replaced by one space, pairs taken from the
  left; the dates \<open>Jan 2020 \<close>(en dash)\<open> Present\<close> become \<open>Jan 2020 - Present\<close>. Nothing
  else is replaced: not the non-breaking hyphen, and not the two characters that follow
  U+00E2 in a mis-decoded dash.
\<close>

theorem job_dates_sanitized:
  assumes "DG_add_work_experience L doc job = Inr doc'"
    and "py_getitem job (ascii ''dates'') = Inr (JStr dates)"
  shows "rendered_cell (Inr doc') (length (d_body doc)) 1 1
           = Some [collapse_two_spaces
                (map (\<lambda>c. if c = U_00E2 \<or> c = U_2013 \<or> c = U_2014 then HYPHEN else c) dates)]
       \<and> collapse_two_spaces
           (map (\<lambda>c. if c = U_00E2 \<or> c = U_2013 \<or> c = U_2014 then HYPHEN else c)
              (ascii ''Jan 2020 '' @ [U_2013] @ ascii '' Present''))
           = ascii ''Jan 2020 - Present''"
proof
  from DG_add_work_experience_Inr [OF assms] obtain t where
    t: "doc' = add_block doc (Table t)" "cell_text (table_cell t 1 1) = [DG_job_dates dates]"
    by blast
  show "rendered_cell (Inr doc') (length (d_body doc)) 1 1
          = Some [collapse_two_spaces
               (map (\<lambda>c. if c = U_00E2 \<or> c = U_2013 \<or> c = U_2014 then HYPHEN else c) dates)]"
    using t(2) unfolding t(1) rendered_cell_add_block by (simp add: DG_job_dates_map)
  show "collapse_two_spaces
           (map (\<lambda>c. if c = U_00E2 \<or> c = U_2013 \<or> c = U_2014 then HYPHEN else c)
              (ascii ''Jan 2020 '' @ [U_2013] @ ascii '' Present''))
           = ascii ''Jan 2020 - Present''"
    by (simp add: ascii_def char_defs)
qed

theorem job_dates_sanitized_witness:
  "rendered_cell (DG_add_work_experience lib0 Document sample_job) 0 1 1
     = Some [ascii ''Jan 2020 - Present'']"
proof -
  obtain doc' where h: "DG_add_work_experience lib0 Document sample_job = Inr doc'"
    using sample_job_renders by blast
  have g: "py_getitem sample_job (ascii ''dates'')
             = Inr (JStr (ascii ''Jan 2020 '' @ [U_2013] @ ascii '' Present''))"
    by (simp add: sample_job_def)
  from job_dates_sanitized [OF h g] show ?thesis
    by (simp add: h)
qed

text \<open>
  The claim as the specification states it fails on dates with a non-breaking hyphen,
  which the renderer keeps, and on dates with a mis-decoded en dash, of which the renderer
  replaces the first character only.
\<close>

theorem job_dates_counterexample:
  "rendered_cell (DG_add_work_experience lib0 Document (job_with_dates dates_with_nb_hyphen)) 0 1 1
     = Some [dates_with_nb_hyphen]
   \<and> claim_sanitize_dates dates_with_nb_hyphen = ascii ''Jan 2020 - Present''
   \<and> dates_with_nb_hyphen \<noteq> ascii ''Jan 2020 - Present''
   \<and> rendered_cell (DG_add_work_experience lib0 Document (job_with_dates dates_misdecoded)) 0 1 1
       = Some [ascii ''Jan 2020 -'' @ [U_20AC, U_201C] @ ascii '' Present'']
   \<and> claim_sanitize_dates dates_misdecoded = ascii ''Jan 2020 - Present''
   \<and> ascii ''Jan 2020 -'' @ [U_20AC, U_201C] @ ascii '' Present'' \<noteq> ascii ''Jan 2020 - Present''"
proof -
  obtain d1 where h1: "DG_add_work_experience lib0 Document (job_with_dates dates_with_nb_hyphen) = Inr d1"
    using nb_hyphen_job_renders by blast
  obtain d2 where h2: "DG_add_work_experience lib0 Document (job_with_dates dates_misdecoded) = Inr d2"
    using misdecoded_job_renders by blast
  have a: "DG_job_dates dates_with_nb_hyphen = dates_with_nb_hyphen"
    by (simp add: DG_job_dates_map dates_with_nb_hyphen_def ascii_def char_defs)
  have b: "DG_job_dates dates_misdecoded = ascii ''Jan 2020 -'' @ [U_20AC, U_201C] @ ascii '' Present''"
    by (simp add: DG_job_dates_map dates_misdecoded_def ascii_def char_defs)
  have c: "claim_sanitize_dates dates_with_nb_hyphen = ascii ''Jan 2020 - Present''"
    by (simp add: claim_sanitize_dates_def replace_dash_artifacts_def dash_artifacts_def
        dates_with_nb_hyphen_def ascii_def char_defs)
  have d: "claim_sanitize_dates dates_misdecoded = ascii ''Jan 2020 - Present''"
    by (simp add: claim_sanitize_dates_def replace_dash_artifacts_def dash_artifacts_def
        dates_misdecoded_def ascii_def char_defs)
  have e: "dates_with_nb_hyphen \<noteq> ascii ''Jan 2020 - Present''"
    by (simp add: dates_with_nb_hyphen_def ascii_def char_defs)
  have f: "ascii ''Jan 2020 -'' @ [U_20AC, U_201C] @ ascii '' Present'' \<noteq> ascii ''Jan 2020 - Present''"
    by (simp add: ascii_def char_defs)
  from job_with_dates_cell [OF h1] job_with_dates_cell [OF h2] a b c d e f show ?thesis
    by simp
qed

section \<open>Education: the degree text\<close>

lemma DG_degree_text_map:
  "DG_degree_text s = map (\<lambda>c. if c = U_00E2 then APOSTROPHE else c) s"
  by (auto simp: DG_degree_text_def py_replace_char char_defs)

lemma DG_add_education_Inr:
  assumes "DG_add_education L doc education = Inr doc'"
    and "py_getitem education (ascii ''degree'') = Inr (JStr degree)"
  shows "\<exists>t. doc' = add_block doc (Table t) \<and> cell_text (table_cell t 1 0) = [DG_degree_text degree]"
  using assms unfolding DG_add_education_def Let_def bindE_eq_Inr
  by (auto simp: table_defs dest: str_arg_Inr)

lemma education_with_dash_renders:
  "\<exists>doc'. DG_add_education lib0 Document education_with_dash = Inr doc'"
  by (simp add: DG_add_education_def education_with_dash_def degree_with_dash_def
      DG_degree_text_def Let_def lib0_defs)

lemma degree_with_dash_kept: "DG_degree_text degree_with_dash = degree_with_dash"
  by (simp add: DG_degree_text_map degree_with_dash_def ascii_def char_defs)

text \<open>
  C6, as the code has it. For every education record, the text in the bottom-left cell of
  the education table is the degree string with every U+00E2 replaced by an apostrophe,
  and nothing else changed: no dash becomes a hyphen and no pair of spaces is collapsed.
\<close>

theorem degree_apostrophes_only:
  assumes "DG_add_education L doc education = Inr doc'"
    and "py_getitem education (ascii ''degree'') = Inr (JStr degree)"
  shows "rendered_cell (Inr doc') (length (d_body doc)) 1 0
           = Some [map (\<lambda>c. if c = U_00E2 then APOSTROPHE else c) degree]"
proof -
  from DG_add_education_Inr [OF assms] obtain t where
    t: "doc' = add_block doc (Table t)" "cell_text (table_cell t 1 0) = [DG_degree_text degree]"
    by blast
  show ?thesis
    using t(2) unfolding t(1) rendered_cell_add_block by (simp add: DG_degree_text_map)
qed

theorem degree_apostrophes_only_witness:
  "rendered_cell (DG_add_education lib0 Document education_with_dash) 0 1 0
     = Some [degree_with_dash]"
proof -
  obtain doc' where h: "DG_add_education lib0 Document education_with_dash = Inr doc'"
    using education_with_dash_renders by blast
  have g: "py_getitem education_with_dash (ascii ''degree'') = Inr (JStr degree_with_dash)"
    by (simp add: education_with_dash_def)
  have "map (\<lambda>c. if c = U_00E2 then APOSTROPHE else c) degree_with_dash = degree_with_dash"
    using degree_with_dash_kept by (simp add: DG_degree_text_map)
  with degree_apostrophes_only [OF h g] show ?thesis
    by (simp add: h)
qed

text \<open>
  The claim as the specification states it fails on a degree with an en dash and two
  spaces: the sanitizer of the specification gives \<open>BSc - CS\<close>, the renderer keeps the
  degree as it is.
\<close>

theorem degree_full_sanitizer_counterexample:
  "TextSanitizer_sanitize degree_with_dash = ascii ''BSc - CS''
   \<and> rendered_cell (DG_add_education lib0 Document education_with_dash) 0 1 0
       = Some [degree_with_dash]
   \<and> degree_with_dash \<noteq> TextSanitizer_sanitize degree_with_dash"
proof -
  obtain doc' where h: "DG_add_education lib0 Document education_with_dash = Inr doc'"
    using education_with_dash_renders by blast
  have g: "py_getitem education_with_dash (ascii ''degree'') = Inr (JStr degree_with_dash)"
    by (simp add: education_with_dash_def)
  from DG_add_education_Inr [OF h g] obtain t where
    t: "doc' = add_block Document (Table t)"
       "cell_text (table_cell t 1 0) = [DG_degree_text degree_with_dash]"
    by blast
  have c: "rendered_cell (DG_add_education lib0 Document education_with_dash) 0 1 0
             = Some [degree_with_dash]"
    using rendered_cell_add_block [of Document t 1 0] t(2)
    by (simp add: h t(1) degree_with_dash_kept)
  have s: "TextSanitizer_sanitize degree_with_dash = ascii ''BSc - CS''"
    by (simp add: TextSanitizer_sanitize_def replace_dash_artifacts_def dash_artifacts_def
        degree_with_dash_def ascii_def char_defs)
  have d: "degree_with_dash \<noteq> ascii ''BSc - CS''"
    by (simp add: degree_with_dash_def ascii_def char_defs)
  from c s d show ?thesis by simp
qed

section \<open>Work experience: achievements\<close>

lemma achievement_text_filter:
  "achievement_text a = py_strip (filter (\<lambda>c. c \<noteq> U_25CF) a)"
  by (simp add: achievement_text_def py_replace_remove)

lemma achievements_loop_strs:
  "achievements_loop L doc (map JStr as) = Inr doc' \<Longrightarrow>
   doc' = doc\<lparr>d_body := d_body doc @ map (\<lambda>a. bullet_paragraph (achievement_text a)) as\<rparr>"
proof (induction as arbitrary: doc)
  case Nil
  then show ?case by simp
next
  case (Cons a as)
  from Cons.prems obtain p where
    p: "doc_add_paragraph L (achievement_text a) (Some ''ListBullet'') = Inr p" and
    r: "achievements_loop L (add_block doc (Para p)) (map JStr as) = Inr doc'"
    by (auto simp: bindE_eq_Inr)
  from doc_add_paragraph_Inr [OF p] have "Para p = bullet_paragraph (achievement_text a)"
    by (simp add: bullet_paragraph_def)
  with Cons.IH [OF r] show ?case
    by (simp add: add_block_def)
qed

lemma sample_jobs_render:
  "\<exists>doc'. jobs_loop DG_add_work_experience lib0 Document [sample_job] = Inr doc'"
  by (simp add: DG_add_work_experience_def sample_job_def DG_job_dates_def achievement_text_def
      py_strip_def py_isspace_def Let_def lib0_defs)

text \<open>
  C7, as the code has it. For every job that is rendered and whose achievements are
  strings, the renderer adds, after the job's table, one paragraph of style ListBullet per
  achievement, in order; its text is the achievement with every bullet glyph U+25CF
  removed, wherever it stands, and the surrounding whitespace then trimmed. The
  achievement (bullet)\<open> Led team of 5\<close> gives \<open>Led team of 5\<close>.
\<close>

theorem achievements_rendered:
  assumes "jobs_loop DG_add_work_experience L doc (job # rest) = Inr doc'"
    and "py_getitem job (ascii ''achievements'') = Inr (JList (map JStr as))"
  shows "(\<exists>doc1. DG_add_work_experience L doc job = Inr doc1
            \<and> jobs_loop DG_add_work_experience L
                (doc1\<lparr>d_body := d_body doc1 @
                   map (\<lambda>a. bullet_paragraph (py_strip (filter (\<lambda>c. c \<noteq> U_25CF) a))) as\<rparr>)
                rest = Inr doc')
       \<and> py_strip (filter (\<lambda>c. c \<noteq> U_25CF) ([U_25CF] @ ascii '' Led team of 5''))
           = ascii ''Led team of 5''"
proof
  show "py_strip (filter (\<lambda>c. c \<noteq> U_25CF) ([U_25CF] @ ascii '' Led team of 5''))
          = ascii ''Led team of 5''"
    by (simp add: py_strip_def py_isspace_def ascii_def char_defs)
  from assms obtain doc1 doc2 where
    1: "DG_add_work_experience L doc job = Inr doc1" and
    2: "achievements_loop L doc1 (map JStr as) = Inr doc2" and
    3: "jobs_loop DG_add_work_experience L doc2 rest = Inr doc'"
    by (auto simp: bindE_eq_Inr)
  from achievements_loop_strs [OF 2] have
    "doc2 = doc1\<lparr>d_body := d_body doc1 @
              map (\<lambda>a. bullet_paragraph (py_strip (filter (\<lambda>c. c \<noteq> U_25CF) a))) as\<rparr>"
    by (simp add: achievement_text_filter)
  with 1 3 show "\<exists>doc1. DG_add_work_experience L doc job = Inr doc1
            \<and> jobs_loop DG_add_work_experience L
                (doc1\<lparr>d_body := d_body doc1 @
                   map (\<lambda>a. bullet_paragraph (py_strip (filter (\<lambda>c. c \<noteq> U_25CF) a))) as\<rparr>)
                rest = Inr doc'"
    by blast
qed

theorem achievements_rendered_witness:
  "\<exists>doc1. DG_add_work_experience lib0 Document sample_job = Inr doc1
     \<and> jobs_loop DG_add_work_experience lib0 Document [sample_job]
         = Inr (doc1\<lparr>d_body := d_body doc1 @ [bullet_paragraph (ascii ''Led team of 5'')]\<rparr>)"
proof -
  obtain doc' where h: "jobs_loop DG_add_work_experience lib0 Document [sample_job] = Inr doc'"
    using sample_jobs_render by blast
  have g: "py_getitem sample_job (ascii ''achievements'')
             = Inr (JList (map JStr [[U_25CF] @ ascii '' Led team of 5'']))"
    by (simp add: sample_job_def)
  from achievements_rendered [OF h g] obtain doc1 where
    1: "DG_add_work_experience lib0 Document sample_job = Inr doc1" and
    2: "doc' = doc1\<lparr>d_body := d_body doc1 @ [bullet_paragraph (ascii ''Led team of 5'')]\<rparr>"
    by auto
  from 1 2 h show ?thesis
    by - (rule exI [of _ doc1], simp)
qed

text \<open>
  The claim as the specification states it fails on a glyph inside the text: it is not a
  leading glyph, and the renderer removes it all the same.
\<close>

theorem achievement_inner_bullet_counterexample:
  "achievements_loop lib0 Document [JStr inner_bullet]
     = Inr (Document\<lparr>d_body := [bullet_paragraph (ascii ''Led  team'')]\<rparr>)
   \<and> strip_leading_bullet inner_bullet = inner_bullet
   \<and> ascii ''Led  team'' \<noteq> strip_leading_bullet inner_bullet"
proof -
  have a: "achievements_loop lib0 Document [JStr inner_bullet]
             = Inr (Document\<lparr>d_body := [bullet_paragraph (ascii ''Led  team'')]\<rparr>)"
    by (simp add: achievement_text_def inner_bullet_def py_strip_def py_isspace_def
        bullet_paragraph_def add_block_def lib0_defs)
  have b: "strip_leading_bullet inner_bullet = inner_bullet"
    by (simp add: strip_leading_bullet_def inner_bullet_def py_strip_def py_isspace_def
        ascii_def char_defs)
  have c: "ascii ''Led  team'' \<noteq> inner_bullet"
    by (simp add: inner_bullet_def ascii_def char_defs)
  from a b c show ?thesis
    by simp
qed

section \<open>The errors of the renderer\<close>

text \<open>
  Past the contact check, no step of the renderer raises a \<open>ValueError\<close> with the
  message of the contact check, unless the library does.
\<close>

lemma py_getitem_Inl: "py_getitem v k = Inl e \<Longrightarrow> e \<noteq> ValueError m"
  by (cases v) (auto split: option.splits)

lemma py_str_receiver_Inl: "py_str_receiver v = Inl e \<Longrightarrow> e \<noteq> ValueError m"
  by (cases v) auto

lemma py_iter_Inl: "py_iter v = Inl e \<Longrightarrow> e \<noteq> ValueError m"
  by (cases v) auto

lemma py_get_Inl: "py_get v k d = Inl e \<Longrightarrow> e \<noteq> ValueError m"
  by (cases v) auto

lemma py_dict_find_Inl: "py_dict_find d v = Inl e \<Longrightarrow> e \<noteq> ValueError m"
  by (cases v) auto

lemma py_str_items_Inl: "py_str_items vs = Inl e \<Longrightarrow> e \<noteq> ValueError m"
  by (induction vs rule: py_str_items.induct) (auto simp: bindE_eq_Inl)

lemma contact_field_Inl: "contact_field rd k = Inl e \<Longrightarrow> e \<noteq> ValueError m"
  by (auto simp: contact_field_def bindE_eq_Inl dest: py_getitem_Inl)

lemma str_arg_Inl:
  "str_arg L p s = Inl e \<Longrightarrow> keeps_contact_message L \<Longrightarrow> e \<noteq> ValueError contact_message"
  by (auto simp: str_arg_def keeps_contact_message_def split: if_splits option.splits)

lemma text_arg_Inl:
  "text_arg L p v = Inl e \<Longrightarrow> keeps_contact_message L \<Longrightarrow> e \<noteq> ValueError contact_message"
  by (auto simp: text_arg_def split: json.splits option.splits dest: str_arg_Inl)

lemma skills_text_Inl:
  "skills_text L v = Inl e \<Longrightarrow> keeps_contact_message L \<Longrightarrow> e \<noteq> ValueError contact_message"
  by (auto simp: skills_text_def bindE_eq_Inl split: json.splits
      dest: py_str_items_Inl text_arg_Inl str_arg_Inl)

lemma doc_add_paragraph_Inl:
  "doc_add_paragraph L s style = Inl e \<Longrightarrow> keeps_contact_message L \<Longrightarrow>
   e \<noteq> ValueError contact_message"
  by (auto simp: doc_add_paragraph_def bindE_eq_Inl dest: str_arg_Inl)

lemma DG_add_hyperlink_Inl:
  "DG_add_hyperlink L p t u = Inl e \<Longrightarrow> keeps_contact_message L \<Longrightarrow>
   e \<noteq> ValueError contact_message"
  by (auto simp: DG_add_hyperlink_def bindE_eq_Inl dest: str_arg_Inl)

lemmas prim_Inl = py_getitem_Inl py_str_receiver_Inl text_arg_Inl py_iter_Inl py_get_Inl
  py_dict_find_Inl py_str_items_Inl skills_text_Inl contact_field_Inl str_arg_Inl
  doc_add_paragraph_Inl DG_add_hyperlink_Inl

lemma contact_information_Inl:
  "contact_information DG_add_hyperlink L doc rd = Inl e \<Longrightarrow> keeps_contact_message L \<Longrightarrow>
   e \<noteq> ValueError contact_message"
  unfolding contact_information_def Let_def bindE_eq_Inl
  by (auto dest: prim_Inl)

lemma professional_summary_Inl:
  "professional_summary L doc rd = Inl e \<Longrightarrow> keeps_contact_message L \<Longrightarrow>
   e \<noteq> ValueError contact_message"
  unfolding professional_summary_def Let_def bindE_eq_Inl
  by (auto dest: prim_Inl)

lemma DG_skill_rows_Inl:
  "DG_skill_rows L ts cats t = Inl e \<Longrightarrow> keeps_contact_message L \<Longrightarrow>
   e \<noteq> ValueError contact_message"
  by (induction cats arbitrary: t)
     (auto simp: bindE_eq_Inl split: option.splits dest: prim_Inl)

lemma DG_skill_block_Inl:
  "(case ts of
      JDict d \<Rightarrow>
        bindE (py_get rd (ascii ''skill_order'') (py_keys d)) (\<lambda>skill_order.
        bindE (py_iter skill_order) (\<lambda>categories. DG_skill_rows L d categories t))
    | _ \<Rightarrow> Inr t) = Inl e \<Longrightarrow> keeps_contact_message L \<Longrightarrow> e \<noteq> ValueError contact_message"
  by (cases ts) (auto simp: bindE_eq_Inl dest: prim_Inl DG_skill_rows_Inl)

lemma DG_technical_skills_Inl:
  "DG_technical_skills L doc rd = Inl e \<Longrightarrow> keeps_contact_message L \<Longrightarrow>
   e \<noteq> ValueError contact_message"
  unfolding DG_technical_skills_def Let_def bindE_eq_Inl
  by (auto dest: prim_Inl DG_skill_block_Inl)

lemma DG_add_work_experience_Inl:
  "DG_add_work_experience L doc job = Inl e \<Longrightarrow> keeps_contact_message L \<Longrightarrow>
   e \<noteq> ValueError contact_message"
  unfolding DG_add_work_experience_def Let_def bindE_eq_Inl
  by (auto dest: prim_Inl)

lemma DG_add_education_Inl:
  "DG_add_education L doc ed = Inl e \<Longrightarrow> keeps_contact_message L \<Longrightarrow>
   e \<noteq> ValueError contact_message"
  unfolding DG_add_education_def Let_def bindE_eq_Inl
  by (auto dest: prim_Inl)

lemma achievements_loop_Inl:
  "achievements_loop L doc as = Inl e \<Longrightarrow> keeps_contact_message L \<Longrightarrow>
   e \<noteq> ValueError contact_message"
  by (induction as arbitrary: doc) (auto simp: bindE_eq_Inl dest: prim_Inl)

lemma DG_jobs_loop_Inl:
  "jobs_loop DG_add_work_experience L doc jobs = Inl e \<Longrightarrow> keeps_contact_message L \<Longrightarrow>
   e \<noteq> ValueError contact_message"
  by (induction jobs arbitrary: doc)
     (auto simp: bindE_eq_Inl dest: prim_Inl achievements_loop_Inl DG_add_work_experience_Inl)

lemma work_experience_Inl:
  "work_experience DG_add_work_experience L doc rd = Inl e \<Longrightarrow> keeps_contact_message L \<Longrightarrow>
   e \<noteq> ValueError contact_message"
  unfolding work_experience_def Let_def bindE_eq_Inl
  by (auto dest: prim_Inl DG_jobs_loop_Inl)

lemma education_block_Inl:
  "education_block DG_add_education L doc rd = Inl e \<Longrightarrow> keeps_contact_message L \<Longrightarrow>
   e \<noteq> ValueError contact_message"
  unfolding education_block_def Let_def bindE_eq_Inl
  by (auto dest: prim_Inl DG_add_education_Inl)

section \<open>The blocks of the document\<close>

lemma DG_generate_document_Inr:
  assumes "DG_generate_document L input = Inr d"
  shows "\<exists>rd doc1 doc2 doc3 doc4.
           decode_input L input = Inr rd \<and> check_contact rd = Inr () \<and>
           contact_information DG_add_hyperlink L (set_default_styles Document) rd = Inr doc1 \<and>
           professional_summary L doc1 rd = Inr doc2 \<and>
           DG_technical_skills L doc2 rd = Inr doc3 \<and>
           work_experience DG_add_work_experience L doc3 rd = Inr doc4 \<and>
           education_block DG_add_education L doc4 rd = Inr d"
  using assms unfolding DG_generate_document_def bindE_eq_Inr by auto

lemma contact_information_Inr:
  assumes "contact_information hl L doc rd = Inr doc'"
    and "contact_field rd (ascii ''linkedin'') = Inr (JStr s)"
  shows "\<exists>a p q c. hl L p (py_strip s) (link_target (py_strip s)) = Inr q \<and>
           d_body doc' = d_body doc @
             [Para a, Para q, Para c, Para (paragraph_of [] (Some ''Normal''))]"
  using assms unfolding contact_information_def Let_def bindE_eq_Inr link_target_def
  by auto

lemma contact_information_length:
  "contact_information hl L doc rd = Inr doc' \<Longrightarrow> length (d_body doc') = length (d_body doc) + 4"
  unfolding contact_information_def Let_def bindE_eq_Inr by auto

lemma professional_summary_Inr:
  assumes "professional_summary L doc rd = Inr doc'"
  shows "\<exists>a b. d_body doc' = d_body doc @ [Para a, Para b]"
  using assms unfolding professional_summary_def Let_def bindE_eq_Inr
  by auto

lemma DG_technical_skills_Inr:
  assumes "DG_technical_skills L doc rd = Inr doc'"
  shows "\<exists>a t. d_body doc' = d_body doc @ [Para a, Table t, Para new_paragraph]"
  using assms unfolding DG_technical_skills_def Let_def bindE_eq_Inr
  by (auto simp: DG_add_section_separator_def add_block_def)

lemma DG_add_work_experience_body:
  "DG_add_work_experience L doc job = Inr doc' \<Longrightarrow> \<exists>bs. d_body doc' = d_body doc @ bs"
  unfolding DG_add_work_experience_def Let_def bindE_eq_Inr
  by (auto simp: add_block_def)

lemma DG_add_education_body:
  "DG_add_education L doc ed = Inr doc' \<Longrightarrow> \<exists>bs. d_body doc' = d_body doc @ bs"
  unfolding DG_add_education_def Let_def bindE_eq_Inr
  by (auto simp: add_block_def)

lemma achievements_loop_body:
  "achievements_loop L doc as = Inr doc' \<Longrightarrow> \<exists>bs. d_body doc' = d_body doc @ bs"
proof (induction as arbitrary: doc)
  case Nil
  then show ?case by simp
next
  case (Cons a as)
  then show ?case by (fastforce simp: bindE_eq_Inr add_block_def)
qed

lemma DG_jobs_loop_body:
  "jobs_loop DG_add_work_experience L doc jobs = Inr doc' \<Longrightarrow> \<exists>bs. d_body doc' = d_body doc @ bs"
proof (induction jobs arbitrary: doc)
  case Nil
  then show ?case by simp
next
  case (Cons job jobs)
  from Cons.prems obtain d1 ach d2 where
    1: "DG_add_work_experience L doc job = Inr d1" and
    2: "achievements_loop L d1 ach = Inr d2" and
    3: "jobs_loop DG_add_work_experience L d2 jobs = Inr doc'"
    by (auto simp: bindE_eq_Inr)
  from DG_add_work_experience_body [OF 1] achievements_loop_body [OF 2] Cons.IH [OF 3]
  show ?case by auto
qed

lemma DG_work_experience_body:
  assumes "work_experience DG_add_work_experience L doc rd = Inr doc'"
  shows "\<exists>bs. d_body doc' = d_body doc @ bs"
proof -
  from assms obtain h jobs where
    "jobs_loop DG_add_work_experience L (add_block doc (Para h)) jobs = Inr doc'"
    unfolding work_experience_def Let_def bindE_eq_Inr by auto
  from DG_jobs_loop_body [OF this] show ?thesis
    by (auto simp: add_block_def)
qed

lemma DG_education_block_body:
  assumes "education_block DG_add_education L doc rd = Inr doc'"
  shows "\<exists>bs. d_body doc' = d_body doc @ bs"
proof -
  from assms obtain h ed where
    "DG_add_education L (add_block doc (Para h)) ed = Inr doc'"
    unfolding education_block_def Let_def bindE_eq_Inr by auto
  from DG_add_education_body [OF this] show ?thesis
    by (auto simp: add_block_def)
qed

lemmas render_defs = DG_generate_document_def create_resume_document_def decode_input_def
  check_contact_def contact_information_def contact_field_def Let_def
  professional_summary_def DG_technical_skills_def technical_skills_def py_keys_def
  skills_text_def work_experience_def DG_add_work_experience_def add_work_experience_def
  education_block_def DG_add_education_def add_education_def DG_add_hyperlink_def
  add_hyperlink_def DG_job_dates_def DG_degree_text_def achievement_text_def
  py_strip_def py_isspace_def py_startswith_def

lemmas sample_defs = sample_resume_def sample_fields_def sample_contact_def sample_skills_def
  sample_job_def sample_education_def

lemma sample_renders: "\<exists>d. DG_generate_document lib0 sample_resume = Inr d"
  by (simp add: render_defs sample_defs lib0_defs)

section \<open>The LinkedIn hyperlink\<close>

lemma hyperlinks_append: "hyperlinks (xs @ ys) = hyperlinks xs @ hyperlinks ys"
  by (induction xs rule: hyperlinks.induct) simp_all

lemma DG_generate_document_header:
  assumes "DG_generate_document L input = Inr d"
  shows "\<exists>rd doc1 bs. decode_input L input = Inr rd \<and> check_contact rd = Inr () \<and>
           contact_information DG_add_hyperlink L (set_default_styles Document) rd = Inr doc1 \<and>
           d_body d = d_body doc1 @ bs"
proof -
  from DG_generate_document_Inr [OF assms] obtain rd doc1 doc2 doc3 doc4 where
    h: "decode_input L input = Inr rd" "check_contact rd = Inr ()"
       "contact_information DG_add_hyperlink L (set_default_styles Document) rd = Inr doc1"
       "professional_summary L doc1 rd = Inr doc2"
       "DG_technical_skills L doc2 rd = Inr doc3"
       "work_experience DG_add_work_experience L doc3 rd = Inr doc4"
       "education_block DG_add_education L doc4 rd = Inr d"
    by blast
  from professional_summary_Inr [OF h(4)] DG_technical_skills_Inr [OF h(5)]
    DG_work_experience_body [OF h(6)] DG_education_block_body [OF h(7)]
  obtain bs where "d_body d = d_body doc1 @ bs" by auto
  with h(1-3) show ?thesis by blast
qed

lemma DG_add_hyperlink_Inr:
  "DG_add_hyperlink L p t u = Inr q \<Longrightarrow>
   map (\<lambda>h. (h_text h, h_url h)) (hyperlinks (p_content q))
     = map (\<lambda>h. (h_text h, h_url h)) (hyperlinks (p_content p)) @ [(t, u)]"
  by (auto simp: DG_add_hyperlink_def bindE_eq_Inr hyperlinks_append dest: str_arg_Inr)

lemma DG_linkedin_link:
  assumes "DG_generate_document L input = Inr d"
    and "decode_input L input = Inr rd"
    and "contact_field rd (ascii ''linkedin'') = Inr (JStr s)"
  shows "last (contact_links (Inr d)) = (py_strip s, link_target (py_strip s))"
proof -
  from DG_generate_document_header [OF assms(1)] assms(2) obtain doc1 bs where
    h: "contact_information DG_add_hyperlink L (set_default_styles Document) rd = Inr doc1"
       "d_body d = d_body doc1 @ bs"
    by auto
  from contact_information_Inr [OF h(1) assms(3)] obtain a p q c where
    q: "DG_add_hyperlink L p (py_strip s) (link_target (py_strip s)) = Inr q" and
    b: "d_body doc1 = [Para a, Para q, Para c, Para (paragraph_of [] (Some ''Normal''))]"
    by (auto simp: set_default_styles_def)
  from b h(2) have "contact_links (Inr d) = map (\<lambda>h. (h_text h, h_url h)) (hyperlinks (p_content q))"
    by (simp add: contact_links_def para_at_def)
  with DG_add_hyperlink_Inr [OF q] show ?thesis
    by simp
qed

lemma spaced_renders:
  "\<exists>d. DG_generate_document lib0 (resume_with_contact spaced_contact) = Inr d"
  by (simp add: render_defs sample_defs resume_with_contact_def spaced_contact_def lib0_defs)

lemma httpbin_renders:
  "\<exists>d. DG_generate_document lib0 (resume_with_contact httpbin_contact) = Inr d"
  by (simp add: render_defs sample_defs resume_with_contact_def httpbin_contact_def lib0_defs)

text \<open>
  C2. The code departs from the claim on two inputs. The identifier
  \<open> linkedin.com/in/asisub\<close>, with a space in front, is displayed without the space: line
  130 strips it, under the comment of line 129 that the identifier is kept exactly as
  provided. And the identifier \<open>httpbin.org/in/asisub\<close>, which starts with no scheme, is
  the link target as it is: line 133 tests for the four characters \<open>http\<close>, under the
  comment of line 132 that the target gets the prefix \<open>https://\<close> if not already
  present.
\<close>

theorem linkedin_not_verbatim:
  "contact_field (resume_with_contact spaced_contact) (ascii ''linkedin'')
     = Inr (JStr (ascii '' linkedin.com/in/asisub''))
   \<and> last (contact_links (DG_generate_document lib0 (resume_with_contact spaced_contact)))
       = (ascii ''linkedin.com/in/asisub'', ascii ''https://linkedin.com/in/asisub'')
   \<and> ascii ''linkedin.com/in/asisub'' \<noteq> ascii '' linkedin.com/in/asisub''
   \<and> contact_field (resume_with_contact httpbin_contact) (ascii ''linkedin'')
       = Inr (JStr (ascii ''httpbin.org/in/asisub''))
   \<and> last (contact_links (DG_generate_document lib0 (resume_with_contact httpbin_contact)))
       = (ascii ''httpbin.org/in/asisub'', ascii ''httpbin.org/in/asisub'')"
proof -
  obtain d where h: "DG_generate_document lib0 (resume_with_contact spaced_contact) = Inr d"
    using spaced_renders by blast
  have g: "decode_input lib0 (resume_with_contact spaced_contact)
             = Inr (resume_with_contact spaced_contact)"
    by (simp add: decode_input_def resume_with_contact_def)
  have f: "contact_field (resume_with_contact spaced_contact) (ascii ''linkedin'')
             = Inr (JStr (ascii '' linkedin.com/in/asisub''))"
    by (simp add: contact_field_def resume_with_contact_def spaced_contact_def)
  have s: "py_strip (ascii '' linkedin.com/in/asisub'') = ascii ''linkedin.com/in/asisub''"
    by (simp add: py_strip_def py_isspace_def ascii_def)
  from DG_linkedin_link [OF h g f, unfolded s] have 1:
    "last (contact_links (DG_generate_document lib0 (resume_with_contact spaced_contact)))
       = (ascii ''linkedin.com/in/asisub'', ascii ''https://linkedin.com/in/asisub'')"
    by (simp add: h link_target_def py_startswith_def ascii_def)
  obtain d' where h': "DG_generate_document lib0 (resume_with_contact httpbin_contact) = Inr d'"
    using httpbin_renders by blast
  have g': "decode_input lib0 (resume_with_contact httpbin_contact)
             = Inr (resume_with_contact httpbin_contact)"
    by (simp add: decode_input_def resume_with_contact_def)
  have f': "contact_field (resume_with_contact httpbin_contact) (ascii ''linkedin'')
             = Inr (JStr (ascii ''httpbin.org/in/asisub''))"
    by (simp add: contact_field_def resume_with_contact_def httpbin_contact_def)
  have s': "py_strip (ascii ''httpbin.org/in/asisub'') = ascii ''httpbin.org/in/asisub''"
    by (simp add: py_strip_def py_isspace_def ascii_def)
  from DG_linkedin_link [OF h' g' f', unfolded s'] have 2:
    "last (contact_links (DG_generate_document lib0 (resume_with_contact httpbin_contact)))
       = (ascii ''httpbin.org/in/asisub'', ascii ''httpbin.org/in/asisub'')"
    by (simp add: h' link_target_def py_startswith_def ascii_def)
  from 1 2 f f' show ?thesis
    by simp
qed

section \<open>Decoding\<close>

text \<open>
  C8. For every JSON string \<open>s\<close> that \<open>json.loads\<close> decodes to a resume value \<open>v\<close>, a
  record, rendering \<open>s\<close> gives what rendering \<open>v\<close> gives: the same document, or the same
  error.
\<close>

theorem decode_then_render:
  assumes "json_loads L s = Inr v" and "is_dict v"
  shows "DG_generate_document L (JStr s) = DG_generate_document L v"
  using assms by (cases v) (simp_all add: DG_generate_document_def decode_input_def)

theorem decode_then_render_witness:
  "DG_generate_document lib1 (JStr sample_text) = DG_generate_document lib1 sample_resume"
proof -
  have a: "json_loads lib1 sample_text = Inr sample_resume"
    by (simp add: lib1_def)
  have b: "is_dict sample_resume"
    by (simp add: sample_resume_def)
  from decode_then_render [OF a b] show ?thesis .
qed

section \<open>The contact check\<close>

lemma check_contact_dict:
  "check_contact (JDict kvs)
     = (if \<exists>c. map_of kvs (ascii ''contact'') = Some (JDict c) then Inr ()
        else Inl (ValueError contact_message))"
proof (cases "map_of kvs (ascii ''contact'')")
  case None
  then have "ascii ''contact'' \<notin> fst ` set kvs"
    by (simp add: map_of_eq_None_iff)
  with None show ?thesis by (simp add: check_contact_def)
next
  case (Some v)
  then have "ascii ''contact'' \<in> fst ` set kvs"
    by (metis map_of_eq_None_iff option.distinct(1))
  with Some show ?thesis by (cases v) (simp_all add: check_contact_def)
qed

lemma DG_generate_document_checked:
  assumes "decode_input L input = Inr rd" and "check_contact rd = Inr ()"
    and "DG_generate_document L input = Inl e" and "keeps_contact_message L"
  shows "e \<noteq> ValueError contact_message"
  using assms unfolding DG_generate_document_def
  by (auto simp: bindE_eq_Inl dest: contact_information_Inl professional_summary_Inl
      DG_technical_skills_Inl work_experience_Inl education_block_Inl)

lemma DG_generate_document_unchecked:
  assumes "decode_input L input = Inr rd" and "check_contact rd = Inl e"
  shows "DG_generate_document L input = Inl e"
  using assms by (simp add: DG_generate_document_def)

lemma schema_error_iff:
  assumes "keeps_contact_message L" and "decode_input L input = Inr (JDict kvs)"
  shows "DG_generate_document L input = Inl (ValueError contact_message)
         \<longleftrightarrow> (\<forall>c. map_of kvs (ascii ''contact'') \<noteq> Some (JDict c))"
proof (cases "\<exists>c. map_of kvs (ascii ''contact'') = Some (JDict c)")
  case True
  then have "check_contact (JDict kvs) = Inr ()"
    by (simp add: check_contact_dict)
  from DG_generate_document_checked [OF assms(2) this _ assms(1)] True show ?thesis
    by fastforce
next
  case False
  then have "check_contact (JDict kvs) = Inl (ValueError contact_message)"
    by (simp add: check_contact_dict)
  from DG_generate_document_unchecked [OF assms(2) this] False show ?thesis
    by simp
qed

lemma decode_error:
  assumes "json_loads L s = Inl msg"
  shows "DG_generate_document L (JStr s) = Inl (ValueError (ascii ''Invalid JSON string: '' @ msg))"
  using assms by (simp add: DG_generate_document_def decode_input_def)

lemma decode_message_differs: "ascii ''Invalid JSON string: '' @ msg \<noteq> contact_message"
  by (simp add: contact_message_def ascii_def)

lemma missing_email:
  assumes "decode_input L input = Inr (JDict kvs)"
    and "map_of kvs (ascii ''contact'') = Some (JDict c)"
    and "map_of c (ascii ''name'') = Some name"
    and "text_arg L AddRun name = Inr n"
    and "map_of c (ascii ''email'') = None"
  shows "DG_generate_document L input = Inl (KeyError (ascii ''email''))"
proof -
  have "check_contact (JDict kvs) = Inr ()"
    using assms(2) by (simp add: check_contact_dict)
  moreover have "contact_information DG_add_hyperlink L (set_default_styles Document) (JDict kvs)
                   = Inl (KeyError (ascii ''email''))"
    using assms(2-5) by (simp add: contact_information_def contact_field_def Let_def)
  ultimately show ?thesis
    using assms(1) by (simp add: DG_generate_document_def)
qed

text \<open>
  C3, as the code has it. For an input whose decoded value is a record, generation fails
  with \<open>ValueError('Missing or invalid contact information')\<close> exactly when the record
  has no \<open>contact\<close> key or its \<open>contact\<close> value is not a record; the library is one
  that raises no \<open>ValueError\<close> with this message of its own. A malformed JSON string
  fails with a \<open>ValueError\<close> too, whose message starts with \<open>Invalid JSON string: \<close>
  and so differs. When \<open>contact\<close> is a record without \<open>email\<close> and with a name that the
  library writes into the document, generation fails with the \<open>KeyError\<close> of the key
  \<open>email\<close>: the key alone, not a path.
\<close>

theorem contact_errors:
  "(keeps_contact_message L \<and> decode_input L input = Inr (JDict kvs) \<longrightarrow>
      (DG_generate_document L input = Inl (ValueError contact_message)
       \<longleftrightarrow> (\<forall>c. map_of kvs (ascii ''contact'') \<noteq> Some (JDict c))))
   \<and> (json_loads L s = Inl msg \<longrightarrow>
        DG_generate_document L (JStr s) = Inl (ValueError (ascii ''Invalid JSON string: '' @ msg))
        \<and> ascii ''Invalid JSON string: '' @ msg \<noteq> contact_message)
   \<and> (decode_input L input = Inr (JDict kvs)
        \<and> map_of kvs (ascii ''contact'') = Some (JDict c)
        \<and> map_of c (ascii ''name'') = Some name
        \<and> text_arg L AddRun name = Inr n
        \<and> map_of c (ascii ''email'') = None \<longrightarrow>
        DG_generate_document L input = Inl (KeyError (ascii ''email'')))"
  using schema_error_iff decode_error decode_message_differs missing_email by blast

theorem contact_errors_witness:
  "keeps_contact_message lib0
   \<and> DG_generate_document lib0 (JDict []) = Inl (ValueError contact_message)
   \<and> DG_generate_document lib0 (JStr (ascii ''{''))
       = Inl (ValueError (ascii ''Invalid JSON string: Expecting value''))
   \<and> text_arg lib0 AddRun (JStr (ascii ''Asi Sub'')) = Inr (ascii ''Asi Sub'')
   \<and> DG_generate_document lib0 (resume_with_contact contact_without_email)
       = Inl (KeyError (ascii ''email''))"
proof -
  have k: "keeps_contact_message lib0"
    by (simp add: keeps_contact_message_def lib0_def lxml_rejects_def xml_message_def
        contact_message_def ascii_def)
  have a: "decode_input lib0 (JDict []) = Inr (JDict [])"
    by (simp add: decode_input_def)
  have b: "json_loads lib0 (ascii ''{'') = Inl (ascii ''Expecting value'')"
    by (simp add: lib0_def)
  have c: "decode_input lib0 (resume_with_contact contact_without_email)
             = Inr (JDict ((ascii ''contact'', contact_without_email) # tl sample_fields))"
    by (simp add: decode_input_def resume_with_contact_def)
  have d: "map_of ((ascii ''contact'', contact_without_email) # tl sample_fields) (ascii ''contact'')
             = Some (JDict [(ascii ''name'', JStr (ascii ''Asi Sub'')),
                  (ascii ''phone'', JStr (ascii ''555-0100'')),
                  (ascii ''linkedin'', JStr (ascii ''linkedin.com/in/asisub''))])"
    by (simp add: contact_without_email_def)
  have t: "text_arg lib0 AddRun (JStr (ascii ''Asi Sub'')) = Inr (ascii ''Asi Sub'')"
    by (simp add: lib0_defs)
  from contact_errors [of lib0 "JDict []" "[]"] k a
  have 1: "DG_generate_document lib0 (JDict []) = Inl (ValueError contact_message)"
    by simp
  from contact_errors [of lib0 _ _ "ascii ''{''" "ascii ''Expecting value''"] b
  have 2: "DG_generate_document lib0 (JStr (ascii ''{''))
             = Inl (ValueError (ascii ''Invalid JSON string: Expecting value''))"
    by (simp add: ascii_def)
  from contact_errors [of lib0 "resume_with_contact contact_without_email"
      "(ascii ''contact'', contact_without_email) # tl sample_fields" _ _
      "[(ascii ''name'', JStr (ascii ''Asi Sub'')),
        (ascii ''phone'', JStr (ascii ''555-0100'')),
        (ascii ''linkedin'', JStr (ascii ''linkedin.com/in/asisub''))]"
      "JStr (ascii ''Asi Sub'')" "ascii ''Asi Sub''"] c d t
  have 3: "DG_generate_document lib0 (resume_with_contact contact_without_email)
             = Inl (KeyError (ascii ''email''))"
    by simp
  from k 1 2 t 3 show ?thesis by simp
qed

text \<open>
  The claim as the specification states it fails on a decoded input that is a number: it
  has no \<open>contact\<close> key, and the failure is the \<open>TypeError\<close> of line 87, not the
  schema error. The error for the missing email names \<open>email\<close>, not
  \<open>contact.email\<close>. And when the name holds a control character, a contact record
  without email fails with the \<open>ValueError\<close> of the library, which line 112 raises
  before line 121 looks the email up.
\<close>

theorem schema_error_counterexample:
  "py_contains (JNum 5) (ascii ''contact'') = Inl TypeError
   \<and> DG_generate_document lib0 (JNum 5) = Inl TypeError
   \<and> DG_generate_document lib0 (JNum 5) \<noteq> Inl (ValueError contact_message)
   \<and> DG_generate_document lib0 (resume_with_contact contact_without_email)
       = Inl (KeyError (ascii ''email''))
   \<and> ascii ''email'' \<noteq> ascii ''contact.email''
   \<and> contact_field (resume_with_contact contact_control_name) (ascii ''email'')
       = Inl (KeyError (ascii ''email''))
   \<and> DG_generate_document lib0 (resume_with_contact contact_control_name)
       = Inl (ValueError xml_message)"
proof -
  have 3: "contact_field (resume_with_contact contact_control_name) (ascii ''email'')
             = Inl (KeyError (ascii ''email''))"
    by (simp add: contact_field_def resume_with_contact_def contact_control_name_def)
  have 4: "DG_generate_document lib0 (resume_with_contact contact_control_name)
             = Inl (ValueError xml_message)"
    by (simp add: DG_generate_document_def decode_input_def resume_with_contact_def
        check_contact_def contact_control_name_def contact_information_def contact_field_def
        Let_def lib0_defs)
  have 1: "DG_generate_document lib0 (JNum 5) = Inl TypeError"
    by (simp add: DG_generate_document_def decode_input_def check_contact_def)
  have 2: "DG_generate_document lib0 (resume_with_contact contact_without_email)
             = Inl (KeyError (ascii ''email''))"
    by (simp add: DG_generate_document_def decode_input_def resume_with_contact_def
        check_contact_def contact_without_email_def contact_information_def contact_field_def
        Let_def lib0_defs)
  from 1 2 3 4 show ?thesis by simp
qed

section \<open>The skills table\<close>

lemma skills_data_row_category: "cell_text (skills_data_row c text ! 0) = [c]"
  by (simp add: skills_data_row_def row_no_space_after_def cell_set_text_def cell_text_def
      para_text_def cell_bold_first_run_def new_run_def new_cell_def new_paragraph_def Let_def)

lemma is_skill_row_category: "is_skill_row L ts row c \<Longrightarrow> cell_text (row ! 0) = [c]"
  by (auto simp: is_skill_row_def skills_data_row_category)

lemma skill_rows_category:
  "list_all2 (is_skill_row L ts) rows cs \<Longrightarrow> category_column rows = map (\<lambda>c. [c]) cs"
  by (induction rows cs rule: list_all2_induct)
     (simp_all add: category_column_def is_skill_row_category)

lemma DG_skill_rows_strs:
  "DG_skill_rows L ts (map JStr names) t = Inr t' \<Longrightarrow>
   \<exists>rows. t' = t\<lparr>t_rows := t_rows t @ rows\<rparr> \<and>
          list_all2 (is_skill_row L ts) rows (filter (\<lambda>c. c \<in> fst ` set ts) names)"
proof (induction names arbitrary: t)
  case Nil
  then show ?case by simp
next
  case (Cons c names)
  show ?case
  proof (cases "map_of ts c")
    case None
    then have notin: "c \<notin> fst ` set ts"
      by (simp add: map_of_eq_None_iff)
    from Cons.prems None have "DG_skill_rows L ts (map JStr names) t = Inr t'"
      by simp
    from Cons.IH [OF this] notin show ?thesis by simp
  next
    case (Some v)
    then have isin: "c \<in> fst ` set ts"
      by (metis map_of_eq_None_iff option.distinct(1))
    from Cons.prems Some obtain tx where
      tx: "skills_text L v = Inr tx" and
      rest: "DG_skill_rows L ts (map JStr names) (table_add_row t (skills_data_row c tx)) = Inr t'"
      by (auto simp: bindE_eq_Inr dest: str_arg_Inr)
    from Cons.IH [OF rest] obtain rows where
      rows: "t' = (table_add_row t (skills_data_row c tx))
                    \<lparr>t_rows := t_rows (table_add_row t (skills_data_row c tx)) @ rows\<rparr>"
            "list_all2 (is_skill_row L ts) rows (filter (\<lambda>c. c \<in> fst ` set ts) names)"
      by blast
    have "is_skill_row L ts (skills_data_row c tx) c"
      using Some tx by (auto simp: is_skill_row_def)
    with rows isin show ?thesis
      by (intro exI [of _ "skills_data_row c tx # rows"]) (simp add: table_add_row_def)
  qed
qed

text \<open>An entry of \<open>skill_order\<close> that is no key of the mapping is passed over: nothing is raised.\<close>

lemma DG_skill_rows_skip:
  "map_of ts c = None \<Longrightarrow>
   DG_skill_rows L ts (JStr c # rest) t = DG_skill_rows L ts rest t"
  by simp

lemma skills_table_header_rows: "t_rows (skills_table_header DG_set_table_borders) = [skills_header_row]"
  by (simp add: skills_table_header_def add_table_def DG_set_table_borders_def table_add_row_def
      Let_def)

lemma DG_technical_skills_rows:
  assumes "DG_technical_skills L doc (JDict kvs) = Inr doc'"
    and "map_of kvs (ascii ''technical_skills'') = Some (JDict ts)"
    and "py_get (JDict kvs) (ascii ''skill_order'') (py_keys ts) = Inr (JList (map JStr names))"
  shows "\<exists>a t rows. d_body doc' = d_body doc @ [Para a, Table t, Para new_paragraph] \<and>
           t_rows t = skills_header_row # rows \<and>
           list_all2 (is_skill_row L ts) rows (filter (\<lambda>c. c \<in> fst ` set ts) names)"
proof -
  from assms obtain t where
    t: "DG_skill_rows L ts (map JStr names) (skills_table_header DG_set_table_borders) = Inr t"
    and d: "\<exists>a. d_body doc' = d_body doc @ [Para a, Table t, Para new_paragraph]"
    unfolding DG_technical_skills_def Let_def
    by (auto simp: bindE_eq_Inr DG_add_section_separator_def add_block_def
        simp del: py_get.simps)
  from DG_skill_rows_strs [OF t] skills_table_header_rows d show ?thesis
    by auto
qed

lemma DG_generate_document_skills:
  assumes "DG_generate_document L input = Inr d"
  shows "\<exists>rd doc2 doc3 bs. decode_input L input = Inr rd \<and> length (d_body doc2) = 6 \<and>
           DG_technical_skills L doc2 rd = Inr doc3 \<and> d_body d = d_body doc3 @ bs"
proof -
  from DG_generate_document_Inr [OF assms] obtain rd doc1 doc2 doc3 doc4 where
    h: "decode_input L input = Inr rd" "check_contact rd = Inr ()"
       "contact_information DG_add_hyperlink L (set_default_styles Document) rd = Inr doc1"
       "professional_summary L doc1 rd = Inr doc2"
       "DG_technical_skills L doc2 rd = Inr doc3"
       "work_experience DG_add_work_experience L doc3 rd = Inr doc4"
       "education_block DG_add_education L doc4 rd = Inr d"
    by blast
  from contact_information_length [OF h(3)] professional_summary_Inr [OF h(4)]
  have 6: "length (d_body doc2) = 6"
    by (auto simp: set_default_styles_def)
  from DG_work_experience_body [OF h(6)] DG_education_block_body [OF h(7)]
  obtain bs where "d_body d = d_body doc3 @ bs" by auto
  with h(1,5) 6 show ?thesis by blast
qed

lemma DG_skills_table_rows:
  assumes "DG_generate_document L (JDict kvs) = Inr d"
    and "map_of kvs (ascii ''technical_skills'') = Some (JDict ts)"
    and "py_get (JDict kvs) (ascii ''skill_order'') (py_keys ts) = Inr (JList (map JStr names))"
  shows "\<exists>rows. skills_table_rows (Inr d) = skills_header_row # rows \<and>
           list_all2 (is_skill_row L ts) rows (filter (\<lambda>c. c \<in> fst ` set ts) names)"
proof -
  from DG_generate_document_skills [OF assms(1)] obtain doc2 doc3 bs where
    h: "length (d_body doc2) = 6" "DG_technical_skills L doc2 (JDict kvs) = Inr doc3"
       "d_body d = d_body doc3 @ bs"
    by (auto simp: decode_input_def)
  from DG_technical_skills_rows [OF h(2) assms(2,3)] obtain a t rows where
    r: "d_body doc3 = d_body doc2 @ [Para a, Table t, Para new_paragraph]"
       "t_rows t = skills_header_row # rows"
       "list_all2 (is_skill_row L ts) rows (filter (\<lambda>c. c \<in> fst ` set ts) names)"
    by blast
  from h(1,3) r(1) have "table_at d 7 = Some t"
    by (simp add: table_at_def nth_append)
  with r(2,3) show ?thesis
    by (auto simp: skills_table_rows_def)
qed

text \<open>
  C1. For every structured resume whose \<open>technical_skills\<close> value is a mapping and whose
  \<open>skill_order\<close> (the list given, or the mapping's key list when it is absent) is a list of
  names, the skills table of the rendered document is the bold header row followed by
  exactly one data row for each entry of \<open>skill_order\<close> that is a key of the mapping, in
  the order of \<open>skill_order\<close>: an entry that is no key gives no row, a key that is no
  entry gives no row, and without \<open>skill_order\<close> the rows follow the mapping's key order.
  Each data row holds the category and the text of its skills.
\<close>

theorem skills_rows_follow_skill_order:
  assumes "DG_generate_document L (JDict kvs) = Inr d"
    and "map_of kvs (ascii ''technical_skills'') = Some (JDict ts)"
    and "py_get (JDict kvs) (ascii ''skill_order'') (py_keys ts) = Inr (JList (map JStr names))"
  shows "\<exists>rows. skills_table_rows (Inr d) = skills_header_row # rows
           \<and> list_all2 (is_skill_row L ts) rows (filter (\<lambda>c. c \<in> fst ` set ts) names)
           \<and> category_column rows = map (\<lambda>c. [c]) (filter (\<lambda>c. c \<in> fst ` set ts) names)
           \<and> (map_of kvs (ascii ''skill_order'') = None \<longrightarrow>
                category_column rows = map (\<lambda>kv. [fst kv]) ts)"
proof -
  from DG_skills_table_rows [OF assms] obtain rows where
    r: "skills_table_rows (Inr d) = skills_header_row # rows"
       "list_all2 (is_skill_row L ts) rows (filter (\<lambda>c. c \<in> fst ` set ts) names)"
    by blast
  from skill_rows_category [OF r(2)] have
    c: "category_column rows = map (\<lambda>c. [c]) (filter (\<lambda>c. c \<in> fst ` set ts) names)" .
  have "category_column rows = map (\<lambda>kv. [fst kv]) ts"
    if "map_of kvs (ascii ''skill_order'') = None"
  proof -
    from assms(3) that have "map JStr names = map (\<lambda>kv. JStr (fst kv)) ts"
      by (simp add: py_keys_def)
    then have "map JStr names = map JStr (map fst ts)"
      by simp
    moreover have "inj JStr"
      by (simp add: inj_on_def)
    ultimately have "names = map fst ts"
      by (simp only: inj_map_eq_map)
    then have "filter (\<lambda>c. c \<in> fst ` set ts) names = map fst ts"
      by (simp add: filter_map o_def)
    with c show ?thesis by (simp add: o_def)
  qed
  then have l: "map_of kvs (ascii ''skill_order'') = None \<longrightarrow>
                  category_column rows = map (\<lambda>kv. [fst kv]) ts"
    by simp
  from r c l show ?thesis
    by - (rule exI [of _ rows], simp)
qed

theorem skills_rows_follow_skill_order_witness:
  "\<exists>rows. skills_table_rows (DG_generate_document lib0 sample_resume) = skills_header_row # rows
     \<and> category_column rows = [[ascii ''A''], [ascii ''B'']]
     \<and> map fst sample_skills = [ascii ''B'', ascii ''A'']"
proof -
  obtain d where h: "DG_generate_document lib0 (JDict sample_fields) = Inr d"
    using sample_renders by (auto simp: sample_resume_def)
  have g: "map_of sample_fields (ascii ''technical_skills'') = Some (JDict sample_skills)"
    by (simp add: sample_fields_def)
  have f: "py_get (JDict sample_fields) (ascii ''skill_order'') (py_keys sample_skills)
             = Inr (JList (map JStr [ascii ''A'', ascii ''B'']))"
    by (simp add: sample_fields_def)
  have k: "filter (\<lambda>c. c \<in> fst ` set sample_skills) [ascii ''A'', ascii ''B'']
             = [ascii ''A'', ascii ''B'']"
    by (simp add: sample_skills_def)
  from skills_rows_follow_skill_order [OF h g f] show ?thesis
    unfolding k by (auto simp: h sample_resume_def sample_skills_def)
qed

section \<open>The two renderers\<close>

lemma DG_add_hyperlink_eq: "DG_add_hyperlink = add_hyperlink"
  by (simp add: fun_eq_iff DG_add_hyperlink_def add_hyperlink_def)

lemma DG_set_table_borders_eq: "DG_set_table_borders = set_table_borders"
  by (simp add: fun_eq_iff DG_set_table_borders_def set_table_borders_def)

lemma DG_add_section_separator_eq: "DG_add_section_separator = add_section_separator"
  by (simp add: fun_eq_iff DG_add_section_separator_def add_section_separator_def)

lemma DG_add_work_experience_eq: "DG_add_work_experience = add_work_experience"
  by (simp add: fun_eq_iff DG_add_work_experience_def add_work_experience_def DG_job_dates_def)

lemma DG_add_education_eq: "DG_add_education = add_education"
  by (simp add: fun_eq_iff DG_add_education_def add_education_def DG_degree_text_def)

lemma technical_skills_not_dict:
  assumes "py_getitem rd (ascii ''technical_skills'') = Inr x" and "\<not> is_dict x"
  shows "DG_technical_skills L doc rd
           = Inr (doc\<lparr>d_body := d_body doc @
                   [Para (add_run new_paragraph ((new_run (ascii ''Technical Skills:''))\<lparr>r_bold := True\<rparr>)),
                    Table (skills_table_header DG_set_table_borders),
                    Para new_paragraph]\<rparr>)"
    and "technical_skills L doc rd = DG_technical_skills L doc rd"
  using assms
  by (cases x; simp add: DG_technical_skills_def technical_skills_def Let_def
      DG_add_section_separator_def add_section_separator_def add_block_def
      DG_set_table_borders_eq)+

lemmas skills_row_defs = skills_table_rows_def table_at_def category_column_def
  DG_add_section_separator_def add_section_separator_def add_block_def
  skills_table_header_def table_add_row_def skills_data_row_def row_no_space_after_def
  cell_set_text_def cell_text_def para_text_def cell_bold_first_run_def add_table_def
  new_run_def new_cell_def new_paragraph_def DG_set_table_borders_def set_table_borders_def
  set_default_styles_def Document_def paragraph_of_def add_run_def

lemma module_sample_categories:
  "category_column (tl (skills_table_rows (create_resume_document lib0 sample_resume)))
     = [[ascii ''B''], [ascii ''A'']]"
  by (simp add: render_defs sample_defs skills_row_defs lib0_defs)

lemma class_sample_categories:
  "category_column (tl (skills_table_rows (DG_generate_document lib0 sample_resume)))
     = [[ascii ''A''], [ascii ''B'']]"
  by (simp add: render_defs sample_defs skills_row_defs lib0_defs)

text \<open>
  C4. The code departs from the claim on the sample resume, whose mapping has the keys B, A
  and whose \<open>skill_order\<close> is A, B: the class renders the rows A then B, as
  \<open>skill_order\<close> has them, and the module-level renderer renders B then A, the order of
  the mapping. Lines 448 to 450 of doc_generator.py iterate the items of the mapping and
  never read \<open>skill_order\<close>, which lines 189 to 195 of document_service.py follow and
  which the module's own \<open>/submit\<close> route (lines 27 to 36) puts into the resume.
\<close>

theorem renderers_differ_on_skill_order:
  "category_column (tl (skills_table_rows (DG_generate_document lib0 sample_resume)))
     = [[ascii ''A''], [ascii ''B'']]
   \<and> category_column (tl (skills_table_rows (create_resume_document lib0 sample_resume)))
       = [[ascii ''B''], [ascii ''A'']]
   \<and> create_resume_document lib0 sample_resume \<noteq> DG_generate_document lib0 sample_resume"
proof -
  have "[[ascii ''A''], [ascii ''B'']] \<noteq> [[ascii ''B''], [ascii ''A'']]"
    by simp
  with module_sample_categories class_sample_categories show ?thesis
    by metis
qed

text \<open>Outside the skills rows the two renderers have the same text.\<close>

lemma renderers_agree:
  assumes "\<And>rd doc. decode_input L input = Inr rd \<Longrightarrow>
             technical_skills L doc rd = DG_technical_skills L doc rd"
  shows "create_resume_document L input = DG_generate_document L input"
proof (cases "decode_input L input")
  case (Inl e)
  then show ?thesis
    by (simp add: create_resume_document_def DG_generate_document_def)
next
  case (Inr rd)
  with assms show ?thesis
    by (simp add: create_resume_document_def DG_generate_document_def DG_add_hyperlink_eq
        DG_add_work_experience_eq DG_add_education_eq)
qed

section \<open>Skills that are no mapping\<close>

lemma check_contact_cong:
  assumes "map_of kvs (ascii ''contact'') = map_of kvs' (ascii ''contact'')"
  shows "check_contact (JDict kvs) = check_contact (JDict kvs')"
  by (simp add: check_contact_dict assms)

lemma contact_information_cong:
  assumes "map_of kvs (ascii ''contact'') = map_of kvs' (ascii ''contact'')"
    and "map_of kvs (ascii ''title'') = map_of kvs' (ascii ''title'')"
  shows "contact_information hl L doc (JDict kvs) = contact_information hl L doc (JDict kvs')"
  by (simp add: contact_information_def contact_field_def assms)

lemma professional_summary_cong:
  assumes "map_of kvs (ascii ''summary'') = map_of kvs' (ascii ''summary'')"
  shows "professional_summary L doc (JDict kvs) = professional_summary L doc (JDict kvs')"
  by (simp add: professional_summary_def assms)

lemma work_experience_cong:
  assumes "map_of kvs (ascii ''work_experience'') = map_of kvs' (ascii ''work_experience'')"
  shows "work_experience f L doc (JDict kvs) = work_experience f L doc (JDict kvs')"
  by (simp add: work_experience_def assms)

lemma education_block_cong:
  assumes "map_of kvs (ascii ''education'') = map_of kvs' (ascii ''education'')"
  shows "education_block f L doc (JDict kvs) = education_block f L doc (JDict kvs')"
  by (simp add: education_block_def assms)

lemma map_of_with_empty_skills:
  "k \<noteq> ascii ''technical_skills'' \<Longrightarrow> k \<noteq> ascii ''skill_order'' \<Longrightarrow>
   map_of (with_empty_skills kvs) k = map_of kvs k"
  "map_of (with_empty_skills kvs) (ascii ''technical_skills'') = Some (JDict [])"
  "map_of (with_empty_skills kvs) (ascii ''skill_order'') = None"
  by (simp_all add: with_empty_skills_def update_conv' delete_conv')

lemma DG_technical_skills_empty:
  "DG_technical_skills L doc (JDict (with_empty_skills kvs))
     = Inr (doc\<lparr>d_body := d_body doc @
             [Para (add_run new_paragraph ((new_run (ascii ''Technical Skills:''))\<lparr>r_bold := True\<rparr>)),
              Table (skills_table_header DG_set_table_borders),
              Para new_paragraph]\<rparr>)"
  by (simp add: DG_technical_skills_def Let_def map_of_with_empty_skills py_keys_def
      DG_add_section_separator_def add_block_def)

lemma non_mapping_as_empty:
  assumes "map_of kvs (ascii ''technical_skills'') = Some x" and "\<not> is_dict x"
  shows "DG_generate_document L (JDict kvs) = DG_generate_document L (JDict (with_empty_skills kvs))"
proof -
  have ts: "py_getitem (JDict kvs) (ascii ''technical_skills'') = Inr x"
    using assms(1) by simp
  have 1: "check_contact (JDict (with_empty_skills kvs)) = check_contact (JDict kvs)"
    by (rule check_contact_cong) (simp add: map_of_with_empty_skills)
  have 2: "contact_information hl L doc (JDict (with_empty_skills kvs))
             = contact_information hl L doc (JDict kvs)" for hl doc
    by (rule contact_information_cong) (simp_all add: map_of_with_empty_skills)
  have 3: "professional_summary L doc (JDict (with_empty_skills kvs))
             = professional_summary L doc (JDict kvs)" for doc
    by (rule professional_summary_cong) (simp add: map_of_with_empty_skills)
  have 4: "work_experience f L doc (JDict (with_empty_skills kvs))
             = work_experience f L doc (JDict kvs)" for f doc
    by (rule work_experience_cong) (simp add: map_of_with_empty_skills)
  have 5: "education_block f L doc (JDict (with_empty_skills kvs))
             = education_block f L doc (JDict kvs)" for f doc
    by (rule education_block_cong) (simp add: map_of_with_empty_skills)
  have 6: "DG_technical_skills L doc (JDict (with_empty_skills kvs))
             = DG_technical_skills L doc (JDict kvs)" for doc
    by (simp only: DG_technical_skills_empty technical_skills_not_dict(1) [OF ts assms(2)])
  show ?thesis
    by (simp add: DG_generate_document_def decode_input_def 1 2 3 4 5 6)
qed

lemma non_mapping_header_only:
  assumes "map_of kvs (ascii ''technical_skills'') = Some x" and "\<not> is_dict x"
    and "DG_generate_document L (JDict kvs) = Inr d"
  shows "skills_table_rows (Inr d) = [skills_header_row]"
proof -
  have ts: "py_getitem (JDict kvs) (ascii ''technical_skills'') = Inr x"
    using assms(1) by simp
  from DG_generate_document_skills [OF assms(3)] obtain doc2 doc3 bs where
    h: "length (d_body doc2) = 6" "DG_technical_skills L doc2 (JDict kvs) = Inr doc3"
       "d_body d = d_body doc3 @ bs"
    by (auto simp: decode_input_def)
  from h(2) technical_skills_not_dict(1) [OF ts assms(2), of L doc2]
  have "\<exists>a. d_body doc3 = d_body doc2 @ [Para a, Table (skills_table_header DG_set_table_borders),
                              Para new_paragraph]"
    by auto
  with h(1,3) have "table_at d 7 = Some (skills_table_header DG_set_table_borders)"
    by (auto simp: table_at_def nth_append)
  then show ?thesis
    by (simp add: skills_table_rows_def skills_table_header_rows)
qed

lemma non_mapping_module:
  assumes "map_of kvs (ascii ''technical_skills'') = Some x" and "\<not> is_dict x"
  shows "create_resume_document L (JDict kvs) = DG_generate_document L (JDict kvs)"
proof (rule renderers_agree)
  fix rd doc assume "decode_input L (JDict kvs) = Inr rd"
  then have "rd = JDict kvs" by (simp add: decode_input_def)
  with assms have "py_getitem rd (ascii ''technical_skills'') = Inr x" by simp
  from technical_skills_not_dict(2) [OF this assms(2)]
  show "technical_skills L doc rd = DG_technical_skills L doc rd" .
qed

text \<open>
  C10. For every resume whose \<open>technical_skills\<close> value is present and is no mapping,
  the skills block raises nothing: rendering gives exactly what the same resume gives with
  an empty mapping and no \<open>skill_order\<close>, so every other block is produced as it would
  be and only they can fail; the module-level renderer gives the same; and the skills
  table of a rendered document holds the bold header row and no data row.
\<close>

theorem non_mapping_skills:
  assumes "map_of kvs (ascii ''technical_skills'') = Some x" and "\<not> is_dict x"
  shows "DG_generate_document L (JDict kvs) = DG_generate_document L (JDict (with_empty_skills kvs))
       \<and> create_resume_document L (JDict kvs) = DG_generate_document L (JDict kvs)
       \<and> (\<forall>d. DG_generate_document L (JDict kvs) = Inr d \<longrightarrow>
              skills_table_rows (Inr d) = [skills_header_row])"
  using non_mapping_as_empty [OF assms] non_mapping_module [OF assms]
    non_mapping_header_only [OF assms] by blast

lemma list_skills_renders: "\<exists>d. DG_generate_document lib0 (JDict list_skills_fields) = Inr d"
  by (simp add: render_defs list_skills_fields_def sample_defs lib0_defs)

theorem non_mapping_skills_witness:
  "\<exists>d. DG_generate_document lib0 (JDict list_skills_fields) = Inr d
      \<and> create_resume_document lib0 (JDict list_skills_fields) = Inr d
      \<and> skills_table_rows (Inr d) = [skills_header_row]"
proof -
  obtain d where h: "DG_generate_document lib0 (JDict list_skills_fields) = Inr d"
    using list_skills_renders by blast
  have a: "map_of list_skills_fields (ascii ''technical_skills'')
             = Some (JList [JStr (ascii ''x''), JStr (ascii ''y'')])"
    by (simp add: list_skills_fields_def update_conv')
  have b: "\<not> is_dict (JList [JStr (ascii ''x''), JStr (ascii ''y'')])"
    by simp
  from non_mapping_skills [OF a b, of lib0] have
    c: "create_resume_document lib0 (JDict list_skills_fields)
          = DG_generate_document lib0 (JDict list_skills_fields)" and
    r: "\<forall>d. DG_generate_document lib0 (JDict list_skills_fields) = Inr d \<longrightarrow>
           skills_table_rows (Inr d) = [skills_header_row]"
    by blast+
  from r h have "skills_table_rows (Inr d) = [skills_header_row]"
    by blast
  with h c show ?thesis
    by - (rule exI [of _ d], simp)
qed

end
